theory Spec2Isabelle
  imports Complex_Main "HOL-Library.AList" "HOL-Library.Char_ord" "HOL-Library.List_Lexorder"
begin

section \<open>The overlap report: management command compute_intersections\<close>

text \<open>
  The command is glue around two external engines: the spatial database (the query
  predicate \<open>shape__intersects\<close>) and the geometry library (area, emptiness,
  intersection). They are not code of the repository, so the model takes them as a
  parameter: a record of functions over an arbitrary type of geometries. Areas are
  Python floats in the source. A float is modelled as the real number it stands for; the
  division of two floats rounds its result, so it is a parameter as well (\<open>g_div\<close>, for
  a divisor that is not zero), and division by zero, which raises, is written out.
  Comparisons of floats are exact.
\<close>

record 'g geos =
  g_area :: "'g \<Rightarrow> real"
  g_empty :: "'g \<Rightarrow> bool"
  g_intersects :: "'g \<Rightarrow> 'g \<Rightarrow> bool"
  g_intersection :: "'g \<Rightarrow> 'g \<Rightarrow> string + 'g"
    \<comment> \<open>\<open>Inl msg\<close>: the call raised an exception \<open>e\<close> with \<open>unicode(e) = msg\<close>\<close>
  g_div :: "real \<Rightarrow> real \<Rightarrow> real"
    \<comment> \<open>\<open>x / y\<close> on two floats, \<open>y\<close> not zero: the float the quotient is rounded to\<close>

text \<open>
  The literal \<open>.001\<close> of line 57 is the float nearest to one thousandth, which is a
  little above it.
\<close>

definition point_001 :: real where
  "point_001 = 1152921504606847 / 2 ^ 60"

datatype json =
    JNull
  | JBool bool
  | JNum real
  | JStr string
  | JList "json list"
  | JDict "(string \<times> json) list"

text \<open>
  The Boundary model, with the fields the two files read. \<open>color\<close> is the stored text
  that the tile view passes to \<open>eval\<close>; \<open>None\<close> stands for a value that is false in
  a condition (NULL or the empty string).
\<close>

record 'g boundary =
  slug :: string
  external_id :: string
  name :: string
  shape :: 'g
  simple_shape :: 'g
  centroid :: "real \<times> real"
  extent :: "real \<times> real \<times> real \<times> real"
  label_point :: "(real \<times> real) option"
  color :: "string option"
  metadata :: json

record 'g boundary_set =
  set_slug :: string
  boundaries :: "'g boundary list"

datatype exn = DoesNotExist | MultipleObjectsReturned | ZeroDivisionError | OverflowError | TypeError | KeyError
  | Error string

text \<open>
  \<open>Model.objects.get(slug=s)\<close>: the one row with that slug; no row raises
  DoesNotExist, several raise MultipleObjectsReturned.
\<close>

definition get_by :: "('r \<Rightarrow> string) \<Rightarrow> 'r list \<Rightarrow> string \<Rightarrow> exn + 'r" where
  "get_by key rows s =
     (case filter (\<lambda>r. key r = s) rows of
        [] \<Rightarrow> Inl DoesNotExist
      | [r] \<Rightarrow> Inr r
      | _ \<Rightarrow> Inl MultipleObjectsReturned)"

text \<open>
  What the command writes to standard output, line by line. A \<open>print\<close> of several
  values is kept as the tuple of the values printed (not their \<open>str\<close>), and the one
  \<open>print json.dumps(output, ...)\<close> as the array it dumps.
\<close>

datatype line =
    Usage
  | Header string string
  | Row string real string real real real real
  | Dump "json list"

datatype format = Csv | Json | Other_format

record run =
  out :: "line list"
  err :: "string list"
  outputs :: "json list"

definition run0 :: run where
  "run0 = \<lparr>out = [], err = [], outputs = []\<rparr>"

text \<open>
  A dict display \<open>{k1: v1, k2: v2, k3: v3}\<close> stores the items from left to right,
  a later key replacing an equal earlier one; \<open>d[k] = v\<close> does the same.
\<close>

definition dict :: "(string \<times> json) list \<Rightarrow> (string \<times> json) list" where
  "dict items = foldl (\<lambda>d (k, v). AList.update k v d) [] items"

definition side :: "'g boundary \<Rightarrow> string \<Rightarrow> real \<Rightarrow> real \<Rightarrow> json" where
  "side b b_slug b_area ratio = JDict (dict
     [(''id'', JStr (external_id b)),
      (''name'', JStr (name b)),
      (''slug'', JStr b_slug),
      (''centroid'', JList [JNum (fst (centroid b)), JNum (snd (centroid b))]),
      (''extent'', (case extent b of (x0, y0, x1, y1) \<Rightarrow> JList [JNum x0, JNum y0, JNum x1, JNum y1])),
      (''area'', JNum b_area),
      (''ratio'', JNum ratio)])"

text \<open>\<open>output[-1][k]["metadata"] = m\<close>, on the record just appended.\<close>

definition set_metadata :: "string \<Rightarrow> json \<Rightarrow> (string \<times> json) list \<Rightarrow> (string \<times> json) list" where
  "set_metadata k m r =
     (case map_of r k of
        Some (JDict sub) \<Rightarrow> AList.update k (JDict (AList.update ''metadata'' m sub)) r
      | _ \<Rightarrow> r)"

definition json_record ::
  "'g geos \<Rightarrow> bool \<Rightarrow> string \<Rightarrow> string \<Rightarrow> string \<Rightarrow> 'g boundary \<Rightarrow> real \<Rightarrow> 'g boundary \<Rightarrow> real \<Rightarrow> real
     \<Rightarrow> json" where
  "json_record G include_metadata sa sb a_slug a a_area b b_area int_area =
     (let r = dict
        [(''area'', JNum int_area),
         (sa, side a a_slug a_area (g_div G int_area a_area)),
         (sb, side b (slug b) b_area (g_div G int_area b_area))]
      in JDict (if include_metadata
                then set_metadata sb (metadata b) (set_metadata sa (metadata a) r)
                else r))"

text \<open>
  The body of the inner loop, lines 44 to 86, for one pair. The result is the exception
  that leaves the loops, if any, and the state of the streams at that point.
\<close>

definition process_pair ::
  "'g geos \<Rightarrow> format \<Rightarrow> bool \<Rightarrow> string \<Rightarrow> string \<Rightarrow> string \<Rightarrow> 'g boundary \<Rightarrow> real \<Rightarrow> 'g boundary
     \<Rightarrow> run \<Rightarrow> exn option \<times> run" where
  "process_pair G fmt include_metadata sa sb a_slug a a_area b st =
     (case g_intersection G (shape a) (shape b) of
        Inl e \<Rightarrow> (None, st\<lparr>err := err st @ [a_slug @ ''/'' @ slug b @ '': '' @ e @ ''\<newline>'']\<rparr>)
      | Inr geometry \<Rightarrow>
          let int_area = g_area G geometry in
          if g_empty G geometry then (None, st)
          else
            let b_area = g_area G (shape b) in
            if a_area = 0 then (Some ZeroDivisionError, st)
            else if g_div G int_area a_area < point_001 then (None, st)
            else if b_area = 0 then (Some ZeroDivisionError, st)
            else if g_div G int_area b_area < point_001 then (None, st)
            else (None,
              (case fmt of
                 Csv \<Rightarrow> st\<lparr>out := out st @
                   [Row a_slug a_area (slug b) b_area int_area
                      (g_div G int_area a_area) (g_div G int_area b_area)]\<rparr>
               | Json \<Rightarrow> st\<lparr>outputs := outputs st @
                   [json_record G include_metadata sa sb a_slug a a_area b b_area int_area]\<rparr>
               | Other_format \<Rightarrow> st)))"

fun inner_loop ::
  "'g geos \<Rightarrow> format \<Rightarrow> bool \<Rightarrow> string \<Rightarrow> string \<Rightarrow> string \<Rightarrow> 'g boundary \<Rightarrow> real
     \<Rightarrow> 'g boundary list \<Rightarrow> run \<Rightarrow> exn option \<times> run" where
  "inner_loop G fmt m sa sb a_slug a a_area [] st = (None, st)"
| "inner_loop G fmt m sa sb a_slug a a_area (b # bs) st =
     (case process_pair G fmt m sa sb a_slug a a_area b st of
        (Some e, st') \<Rightarrow> (Some e, st')
      | (None, st') \<Rightarrow> inner_loop G fmt m sa sb a_slug a a_area bs st')"

text \<open>
  The outer loop, lines 36 to 42: for each slug of the first set, the boundary is fetched
  again by its slug, and the boundaries of the second set that the database reports as
  intersecting it are processed in turn.
\<close>

fun outer_loop ::
  "'g geos \<Rightarrow> format \<Rightarrow> bool \<Rightarrow> 'g boundary_set \<Rightarrow> 'g boundary_set \<Rightarrow> string list \<Rightarrow> run
     \<Rightarrow> exn option \<times> run" where
  "outer_loop G fmt m bset_a bset_b [] st = (None, st)"
| "outer_loop G fmt m bset_a bset_b (a_slug # rest) st =
     (case get_by slug (boundaries bset_a) a_slug of
        Inl e \<Rightarrow> (Some e, st)
      | Inr a_bdry \<Rightarrow>
          (case inner_loop G fmt m (set_slug bset_a) (set_slug bset_b) a_slug a_bdry (g_area G (shape a_bdry))
                  (filter (\<lambda>b. g_intersects G (shape b) (shape a_bdry)) (boundaries bset_b)) st of
             (Some e, st') \<Rightarrow> (Some e, st')
           | (None, st') \<Rightarrow> outer_loop G fmt m bset_a bset_b rest st'))"

text \<open>\<open>order_by("slug").values_list('slug', flat=True)\<close>\<close>

definition slugs_in_order :: "'g boundary_set \<Rightarrow> string list" where
  "slugs_in_order bset = sort (map slug (boundaries bset))"

text \<open>
  \<open>Command.handle\<close>. The database is the list of its boundary sets; \<open>args\<close> are the
  positional arguments. The result is the uncaught exception, if any, with what has
  been written to the two streams.
\<close>

definition handle ::
  "'g geos \<Rightarrow> 'g boundary_set list \<Rightarrow> string list \<Rightarrow> format \<Rightarrow> bool \<Rightarrow> exn option \<times> run" where
  "handle G db args fmt include_metadata =
     (if length args < 2 then (None, run0\<lparr>out := [Usage]\<rparr>)
      else
        case get_by set_slug db (args ! 0) of
          Inl e \<Rightarrow> (Some e, run0)
        | Inr bset_a \<Rightarrow>
            (case get_by set_slug db (args ! 1) of
               Inl e \<Rightarrow> (Some e, run0)
             | Inr bset_b \<Rightarrow>
                 let st = (if fmt = Csv
                           then run0\<lparr>out := [Header (set_slug bset_a) (set_slug bset_b)]\<rparr>
                           else run0)
                 in (case outer_loop G fmt include_metadata bset_a bset_b (slugs_in_order bset_a) st of
                       (Some e, st') \<Rightarrow> (Some e, st')
                     | (None, st') \<Rightarrow>
                         (None, if fmt = Json then st'\<lparr>out := out st' @ [Dump (outputs st')]\<rparr> else st'))))"


subsection \<open>Reading the report\<close>

text \<open>
  The pairs that pass the filter of lines 44 to 58: the intersection is computed without
  an exception, it is not empty, both divisions are defined and neither ratio is below
  the float \<open>.001\<close>.
\<close>

definition passes :: "'g geos \<Rightarrow> 'g boundary \<Rightarrow> 'g boundary \<Rightarrow> 'g \<Rightarrow> bool" where
  "passes G a b geometry =
     (g_intersection G (shape a) (shape b) = Inr geometry \<and> \<not> g_empty G geometry \<and>
      g_area G (shape a) \<noteq> 0 \<and> g_area G (shape b) \<noteq> 0 \<and>
      point_001 \<le> g_div G (g_area G geometry) (g_area G (shape a)) \<and>
      point_001 \<le> g_div G (g_area G geometry) (g_area G (shape b)))"

definition csv_row :: "'g geos \<Rightarrow> 'g boundary \<Rightarrow> 'g boundary \<Rightarrow> 'g \<Rightarrow> line" where
  "csv_row G a b geometry =
     Row (slug a) (g_area G (shape a)) (slug b) (g_area G (shape b)) (g_area G geometry)
       (g_div G (g_area G geometry) (g_area G (shape a)))
       (g_div G (g_area G geometry) (g_area G (shape b)))"

definition json_of :: "'g geos \<Rightarrow> bool \<Rightarrow> string \<Rightarrow> string \<Rightarrow> 'g boundary \<Rightarrow> 'g boundary \<Rightarrow> 'g \<Rightarrow> json" where
  "json_of G m sa sb a b geometry =
     json_record G m sa sb (slug a) a (g_area G (shape a)) b (g_area G (shape b)) (g_area G geometry)"

definition from_pair :: "'g geos \<Rightarrow> 'g boundary list \<Rightarrow> 'g boundary list \<Rightarrow> ('g boundary \<Rightarrow> 'g boundary \<Rightarrow> 'g \<Rightarrow> 'x) \<Rightarrow> 'x \<Rightarrow> bool" where
  "from_pair G as bs f x =
     (\<exists>a b geometry. a \<in> set as \<and> b \<in> set bs \<and> g_intersects G (shape b) (shape a) \<and>
        passes G a b geometry \<and> x = f a b geometry)"

definition emitted_ok :: "'g geos \<Rightarrow> bool \<Rightarrow> string \<Rightarrow> string \<Rightarrow> 'g boundary list \<Rightarrow> 'g boundary list \<Rightarrow> run \<Rightarrow> bool" where
  "emitted_ok G m sa sb as bs st =
     ((\<forall>l \<in> set (out st). l = Header sa sb \<or> from_pair G as bs (csv_row G) l) \<and>
      (\<forall>r \<in> set (outputs st). from_pair G as bs (json_of G m sa sb) r))"

text \<open>\<open>j[k]\<close> and \<open>j[k1][k2]...\<close> on a decoded JSON value.\<close>

definition field :: "string \<Rightarrow> json \<Rightarrow> json option" where
  "field k j = (case j of JDict d \<Rightarrow> map_of d k | _ \<Rightarrow> None)"

fun path :: "string list \<Rightarrow> json \<Rightarrow> json option" where
  "path [] j = Some j"
| "path (k # ks) j = (case field k j of None \<Rightarrow> None | Some v \<Rightarrow> path ks v)"


text \<open>
  What a run adds to the streams, whatever the format: the rows or records of a list of
  pairs, and a list of messages. And the pair of slugs a reader finds in a CSV row and in
  a JSON record (under the slugs of the two sets).
\<close>

definition emit ::
  "'g geos \<Rightarrow> format \<Rightarrow> bool \<Rightarrow> string \<Rightarrow> string \<Rightarrow> ('g boundary \<times> 'g boundary \<times> 'g) list \<Rightarrow> string list
     \<Rightarrow> run \<Rightarrow> run" where
  "emit G fmt m sa sb ps msgs st =
     st\<lparr>out := out st @ (if fmt = Csv then map (\<lambda>(a, b, g). csv_row G a b g) ps else []),
        err := err st @ msgs,
        outputs := outputs st @ (if fmt = Json then map (\<lambda>(a, b, g). json_of G m sa sb a b g) ps else [])\<rparr>"

definition csv_pair :: "line \<Rightarrow> (string \<times> string) option" where
  "csv_pair l = (case l of Row a_slug _ b_slug _ _ _ _ \<Rightarrow> Some (a_slug, b_slug) | _ \<Rightarrow> None)"

definition json_pair :: "string \<Rightarrow> string \<Rightarrow> json \<Rightarrow> (string \<times> string) option" where
  "json_pair sa sb r =
     (case (path [sa, ''slug''] r, path [sb, ''slug''] r) of
        (Some (JStr x), Some (JStr y)) \<Rightarrow> Some (x, y)
      | _ \<Rightarrow> None)"

definition csv_pairs :: "line list \<Rightarrow> (string \<times> string) list" where
  "csv_pairs ls = List.map_filter csv_pair ls"

definition json_pairs :: "string \<Rightarrow> string \<Rightarrow> line list \<Rightarrow> (string \<times> string) list" where
  "json_pairs sa sb ls =
     concat (map (\<lambda>l. case l of Dump recs \<Rightarrow> List.map_filter (json_pair sa sb) recs | _ \<Rightarrow> []) ls)"


subsection \<open>Example data: axis-parallel boxes as geometries\<close>

text \<open>
  A small geometry engine for concrete runs: a box is \<open>(x0, y0, x1, y1)\<close>, and the
  intersection of two boxes is a box (empty when a side is negative, of area zero when
  the boxes only touch). Its division is the exact one, which is the division of floats
  wherever the quotient is a float; the data below are chosen so that this is the case
  for every quotient of the runs.
\<close>

type_synonym box = "real \<times> real \<times> real \<times> real"

definition box_empty :: "box \<Rightarrow> bool" where
  "box_empty r = (case r of (x0, y0, x1, y1) \<Rightarrow> x1 < x0 \<or> y1 < y0)"

definition box_area :: "box \<Rightarrow> real" where
  "box_area r = (case r of (x0, y0, x1, y1) \<Rightarrow> if x1 < x0 \<or> y1 < y0 then 0 else (x1 - x0) * (y1 - y0))"

definition box_inter :: "box \<Rightarrow> box \<Rightarrow> box" where
  "box_inter r s = (case r of (x0, y0, x1, y1) \<Rightarrow> case s of (u0, v0, u1, v1) \<Rightarrow>
     (max x0 u0, max y0 v0, min x1 u1, min y1 v1))"

definition box_geos :: "box geos" where
  "box_geos = \<lparr>g_area = box_area, g_empty = box_empty,
     g_intersects = (\<lambda>r s. \<not> box_empty (box_inter r s)),
     g_intersection = (\<lambda>r s. Inr (box_inter r s)),
     g_div = (\<lambda>x y. x / y)\<rparr>"

definition mk_boundary :: "string \<Rightarrow> 'g \<Rightarrow> 'g boundary" where
  "mk_boundary s g = \<lparr>slug = s, external_id = ''id-'' @ s, name = ''Name '' @ s, shape = g, simple_shape = g,
     centroid = (0, 0), extent = (0, 0, 0, 0), label_point = None, color = None, metadata = JNull\<rparr>"

text \<open>
  Two sets of one boundary each: a ward 1024 wide and 1 high, and a district 512 high
  whose width is the float \<open>1.024\<close>, which is 1024 times the float \<open>.001\<close>. They
  overlap in a box of height 1 and of that width: the overlap is the float \<open>.001\<close> of
  the ward and one 512th of the district, and both quotients are exact.
\<close>

definition w1 :: "box boundary" where
  "w1 = mk_boundary ''w1'' (0, 0, 1024, 1)"

definition d1 :: "box boundary" where
  "d1 = mk_boundary ''d1'' (0, 0, 1024 * point_001, 512)"

definition db1 :: "box boundary_set list" where
  "db1 = [\<lparr>set_slug = ''wards'', boundaries = [w1]\<rparr>,
          \<lparr>set_slug = ''districts'', boundaries = [d1]\<rparr>]"


text \<open>
  One set with two boundaries that overlap in half of their area, for runs of the command
  on a set against itself; and an engine whose intersection always raises.
\<close>

definition z1 :: "box boundary" where
  "z1 = mk_boundary ''z1'' (0, 0, 2, 2)"

definition z2 :: "box boundary" where
  "z2 = mk_boundary ''z2'' (1, 0, 3, 2)"

definition db2 :: "box boundary_set list" where
  "db2 = [\<lparr>set_slug = ''zones'', boundaries = [z2, z1]\<rparr>]"


text \<open>
  The wards with a second, degenerate boundary of area zero that touches the district.
\<close>

definition w2 :: "box boundary" where
  "w2 = mk_boundary ''w2'' (0, 0, 0, 1)"

definition db3 :: "box boundary_set list" where
  "db3 = [\<lparr>set_slug = ''wards'', boundaries = [w1, w2]\<rparr>,
          \<lparr>set_slug = ''districts'', boundaries = [d1]\<rparr>]"

section \<open>The map tile renderer: view boundaries_map_tiles\<close>

text \<open>
  The view is glue as well: the spatial reference systems, the coordinate transformations
  and the geometry operations belong to the spatial database and the geometry library,
  the text metrics to the drawing library, \<open>eval\<close>, \<open>int\<close> and the arithmetic of
  floats to the interpreter, and the tolerance to the settings. The model takes them as
  one record of parameters. A call that the view wraps in a bare \<open>except\<close> returns an
  option (\<open>None\<close>: it raised).

  A float is modelled as the real number it stands for, so the model covers the runs whose
  floats are finite. The four operations on floats round their results and are
  parameters (\<open>fadd\<close>, \<open>fsub\<close>, \<open>fmul\<close>, \<open>fdiv\<close>, the last for a divisor that is
  not zero), as is the float nearest to an integer (\<open>float_of_int\<close>); what raises
  (a division by zero, an integer too large for a float, \<open>math.pow\<close> out of range) is
  written out where the view computes the box of the tile and the width of a pixel,
  lines 180 to 210. The arithmetic of the drawing (the viewport and the three passes) is
  written over the real numbers.

  \<open>py_int\<close> is \<open>int(s)\<close> on the text of a query parameter, a Unicode string: it
  accepts the white space and the decimal digits of Unicode, and \<open>None\<close> stands for
  ValueError, the one exception it raises on a string.
\<close>

type_synonym point = "real \<times> real"

type_synonym bounds = "real \<times> real \<times> real \<times> real"

datatype pyval =
    PyTuple "real list"
  | PyList "real list"
  | PyDict "(string \<times> real list) list"
  | PyOther

record ('g, 's) engine =
  has_imaging_library :: bool
  SIMPLE_SHAPE_TOLERANCE :: real
  MAP_LABEL_FONT :: string
  geometry_field_srid :: int
  spatial_ref_sys :: "int \<Rightarrow> 's option"
  point_transform :: "'s \<Rightarrow> 's \<Rightarrow> point \<Rightarrow> point"
  polygon :: "'s \<Rightarrow> point list \<Rightarrow> 'g"
  transform :: "'s \<Rightarrow> 's \<Rightarrow> 'g \<Rightarrow> 'g"
  extent_of :: "'g \<Rightarrow> bounds"
  simplify :: "real \<Rightarrow> 'g \<Rightarrow> 'g"
  rings :: "'g \<Rightarrow> point list list"
  shape_intersects :: "'g \<Rightarrow> 'g \<Rightarrow> bool"
  intersection :: "'g \<Rightarrow> 'g \<Rightarrow> 'g option"
  point_on_surface :: "'g \<Rightarrow> point option"
  contains :: "'g \<Rightarrow> point \<Rightarrow> bool"
  area :: "'g \<Rightarrow> real"
  centroid_of :: "'g \<Rightarrow> point"
  py_eval :: "string \<Rightarrow> exn + pyval"
  text_extents :: "real \<Rightarrow> string \<Rightarrow> real \<times> real \<times> real \<times> real"
  py_int :: "string \<Rightarrow> int option"
  fadd :: "real \<Rightarrow> real \<Rightarrow> real"
  fsub :: "real \<Rightarrow> real \<Rightarrow> real"
  fmul :: "real \<Rightarrow> real \<Rightarrow> real"
  fdiv :: "real \<Rightarrow> real \<Rightarrow> real"
  float_of_int :: "int \<Rightarrow> real"

text \<open>
  The calls on the drawing context, in the order the view makes them, and the image
  surface they draw on. A surface is created transparent; \<open>write_to_png\<close> encodes
  it as it is, so the body of a response is kept as the surface.
\<close>

datatype draw_op =
    Select_font_face string
  | Set_source_rgba real real real real
  | Set_source "(real \<times> real \<times> real \<times> real \<times> real) list"
  | New_path
  | Line_to real real
  | Rel_line_to real real
  | Move_to real real
  | Fill
  | Set_line_width real
  | Stroke_preserve
  | Set_font_size real
  | Show_text string

record surface =
  width :: int
  height :: int
  ops :: "draw_op list"

datatype response =
    Http404 string
  | HttpResponse string surface
  | Raised exn

subsection \<open>Request parameters\<close>

text \<open>
  What \<open>int(s)\<close> does on a string of ASCII characters, for the example requests:
  surrounding white space is dropped, one sign may come first, and at least one decimal
  digit must follow and nothing else; \<open>None\<close> stands for ValueError.
\<close>

definition is_space :: "char \<Rightarrow> bool" where
  "is_space c = (c \<in> set [CHR '' '', CHR 0x09, CHR 0x0A, CHR 0x0B, CHR 0x0C, CHR 0x0D])"

definition strip :: "string \<Rightarrow> string" where
  "strip s = rev (dropWhile is_space (rev (dropWhile is_space s)))"

definition digit :: "char \<Rightarrow> nat option" where
  "digit c = map_of (zip ''0123456789'' [0, 1, 2, 3, 4, 5, 6, 7, 8, 9]) c"

fun digits :: "string \<Rightarrow> nat \<Rightarrow> nat option" where
  "digits [] n = Some n"
| "digits (c # cs) n = (case digit c of None \<Rightarrow> None | Some d \<Rightarrow> digits cs (10 * n + d))"

definition ascii_int :: "string \<Rightarrow> int option" where
  "ascii_int s =
     (case strip s of
        [] \<Rightarrow> None
      | c # cs \<Rightarrow>
          if c = CHR ''-'' then (if cs = [] then None else map_option (\<lambda>n. - int n) (digits cs 0))
          else if c = CHR ''+'' then (if cs = [] then None else map_option int (digits cs 0))
          else map_option int (digits (c # cs) 0))"

text \<open>\<open>request.GET.get(key, default)\<close>\<close>

definition get_param :: "(string \<rightharpoonup> string) \<Rightarrow> string \<Rightarrow> string \<Rightarrow> string" where
  "get_param GET key dflt = (case GET key of None \<Rightarrow> dflt | Some v \<Rightarrow> v)"

text \<open>
  \<open>math.pow(2.0, tile_zoom)\<close>. The exponent is converted to a float, which raises
  OverflowError for an integer that rounds to no finite float (from
  \<open>2 ^ 1024 - 2 ^ 970\<close> on, in absolute value); the power raises OverflowError when it
  is too large for a float, from \<open>2 ^ 1024\<close> on, and is zero when it is below half of
  the least positive float, \<open>2 ^ - 1074\<close>. In between it is exact.
\<close>

definition pow2 :: "int \<Rightarrow> exn + real" where
  "pow2 z =
     (if 1024 \<le> z \<or> z \<le> - (2 ^ 1024 - 2 ^ 970) then Inl OverflowError
      else if z < - 1074 then Inr 0
      else if 0 \<le> z then Inr (2 ^ nat z)
      else Inr (1 / 2 ^ nat (- z)))"

text \<open>
  \<open>x * n\<close> for a float \<open>x\<close> and an integer \<open>n\<close>: the integer is converted to a
  float first.
\<close>

definition float_times_int :: "('g, 's) engine \<Rightarrow> real \<Rightarrow> int \<Rightarrow> exn + real" where
  "float_times_int E x n =
     (if 2 ^ 1024 - 2 ^ 970 \<le> \<bar>n\<bar> then Inl OverflowError
      else Inr (fmul E x (float_of_int E n)))"

subsection \<open>The query\<close>

datatype shape_field = Shape | Simple_shape

text \<open>
  A row of \<open>.values("name", "label_point", "color", shape_field)\<close>: of the two geometry
  columns it holds the one that was asked for.
\<close>

record 'g row =
  row_name :: string
  row_label_point :: "point option"
  row_color :: "string option"
  row_shape :: 'g

definition values_row :: "shape_field \<Rightarrow> 'g boundary \<Rightarrow> 'g row" where
  "values_row fld b =
     \<lparr>row_name = name b, row_label_point = label_point b, row_color = color b,
      row_shape = (case fld of Shape \<Rightarrow> shape b | Simple_shape \<Rightarrow> simple_shape b)\<rparr>"

text \<open>
  Lines 209 to 218. \<open>size\<close> is one of 256, 512 and 1024 here, so the divisions of line
  210 do not raise. \<open>boundary_slug\<close> is \<open>None\<close> when the argument is false in a
  condition (absent or empty).
\<close>

definition pixel_width_of :: "('g, 's) engine \<Rightarrow> bounds \<Rightarrow> int \<Rightarrow> real" where
  "pixel_width_of E db_extent sz =
     (case db_extent of (x0, y0, x1, y1) \<Rightarrow> fdiv E (fdiv E (fsub E x1 x0) (real_of_int sz)) 2)"

definition choose_shape_field :: "('g, 's) engine \<Rightarrow> real \<Rightarrow> shape_field" where
  "choose_shape_field E pixel_width =
     (if pixel_width > SIMPLE_SHAPE_TOLERANCE E then Simple_shape else Shape)"

definition matching ::
  "('g, 's) engine \<Rightarrow> 'g boundary_set list \<Rightarrow> string \<Rightarrow> string option \<Rightarrow> 'g \<Rightarrow> 'g boundary list" where
  "matching E db s boundary_slug db_bbox =
     filter (\<lambda>b. case boundary_slug of None \<Rightarrow> True | Some bs \<Rightarrow> slug b = bs)
       (filter (\<lambda>b. shape_intersects E (shape b) db_bbox)
         (concat (map boundaries (filter (\<lambda>bset. set_slug bset = s) db))))"

definition tile_boundaries ::
  "('g, 's) engine \<Rightarrow> 'g boundary_set list \<Rightarrow> string \<Rightarrow> string option \<Rightarrow> 'g \<Rightarrow> real \<Rightarrow> 'g row list" where
  "tile_boundaries E db s boundary_slug db_bbox pixel_width =
     map (values_row (choose_shape_field E pixel_width)) (matching E db s boundary_slug db_bbox)"

subsection \<open>The shapes to draw\<close>

definition max_extent :: "('g, 's) engine \<Rightarrow> 'g \<Rightarrow> real" where
  "max_extent E sh = (case extent_of E sh of (a, b, c, d) \<Rightarrow> max (c - a) (d - b))"

text \<open>
  Lines 245 to 270. Wrapping the simplified shape in a MultiPolygon changes neither its
  extent nor its rings, and is left out.
\<close>

fun draw_shapes :: "('g, 's) engine \<Rightarrow> 's \<Rightarrow> 's \<Rightarrow> real \<Rightarrow> 'g row list \<Rightarrow> ('g row \<times> 'g \<times> real) list" where
  "draw_shapes E db_srs out_srs pixel_width [] = []"
| "draw_shapes E db_srs out_srs pixel_width (bdry # rest) =
     (let sh = simplify E pixel_width (row_shape bdry);
          ext_dim = max_extent E sh
      in if ext_dim < pixel_width then draw_shapes E db_srs out_srs pixel_width rest
         else (bdry, transform E db_srs out_srs sh, ext_dim) # draw_shapes E db_srs out_srs pixel_width rest)"

subsection \<open>The three passes\<close>

text \<open>A loop whose body may raise: the first exception ends it.\<close>

fun each :: "('a \<Rightarrow> exn + draw_op list) \<Rightarrow> 'a list \<Rightarrow> exn + draw_op list" where
  "each f [] = Inr []"
| "each f (x # xs) =
     (case f x of
        Inl e \<Rightarrow> Inl e
      | Inr drawn \<Rightarrow> (case each f xs of Inl e \<Rightarrow> Inl e | Inr later \<Rightarrow> Inr (drawn @ later)))"

record view =
  size_px :: int
  blon1 :: real
  blat1 :: real
  b_x :: real
  b_y :: real

definition viewport :: "view \<Rightarrow> point \<Rightarrow> point" where
  "viewport V coord =
     ((fst coord - blon1 V) * b_x V, (real_of_int (size_px V) - 1) - (snd coord - blat1 V) * b_y V)"

definition line_tos :: "view \<Rightarrow> point list \<Rightarrow> draw_op list" where
  "line_tos V ring = map (\<lambda>pt. Line_to (fst (viewport V pt)) (snd (viewport V pt))) ring"

text \<open>
  \<open>ctx.set_source_rgba(*components)\<close> and \<open>pat.add_color_stop_rgba(*arguments)\<close>
  raise TypeError unless they get four and five numbers.
\<close>

definition set_source_rgba :: "real list \<Rightarrow> exn + draw_op" where
  "set_source_rgba cs = (case cs of [r, g, b, a] \<Rightarrow> Inr (Set_source_rgba r g b a) | _ \<Rightarrow> Inl TypeError)"

definition color_stop :: "real list \<Rightarrow> exn + (real \<times> real \<times> real \<times> real \<times> real)" where
  "color_stop cs = (case cs of [x, r, g, b, a] \<Rightarrow> Inr (x, r, g, b, a) | _ \<Rightarrow> Inl TypeError)"

fun those_stops :: "(exn + (real \<times> real \<times> real \<times> real \<times> real)) list
    \<Rightarrow> exn + (real \<times> real \<times> real \<times> real \<times> real) list" where
  "those_stops [] = Inr []"
| "those_stops (Inl e # rest) = Inl e"
| "those_stops (Inr s # rest) = (case those_stops rest of Inl e \<Rightarrow> Inl e | Inr ss \<Rightarrow> Inr (s # ss))"

text \<open>
  The stops of the striped pattern, lines 297 to 302, for \<open>x\<close> in
  \<open>xrange(0, size, 32)\<close>; a missing key raises KeyError when it is first read.
\<close>

definition stripes :: "int \<Rightarrow> (string \<times> real list) list \<Rightarrow> exn + draw_op" where
  "stripes sz d =
     (case map_of d ''color1'' of
        None \<Rightarrow> Inl KeyError
      | Some c1 \<Rightarrow>
          if length c1 \<noteq> 3 then Inl TypeError
          else (case map_of d ''color2'' of
            None \<Rightarrow> Inl KeyError
          | Some c2 \<Rightarrow>
              (case those_stops (concat (map (\<lambda>k.
                  let x = 32 * real k in
                  [color_stop ([x / real_of_int sz] @ map (\<lambda>f. f / 255) c1 @ [0.3]),
                   color_stop ([(x + 28) / real_of_int sz] @ map (\<lambda>f. f / 255) c1 @ [0.3]),
                   color_stop ([(x + 28) / real_of_int sz] @ map (\<lambda>f. f / 255) c2 @ [0.4]),
                   color_stop ([(x + 32) / real_of_int sz] @ map (\<lambda>f. f / 255) c2 @ [0.4])])
                  [0 ..< nat ((sz + 31) div 32)])) of
                 Inl e \<Rightarrow> Inl e
               | Inr stops \<Rightarrow> Inr (Set_source stops))))"

text \<open>
  Lines 279 to 305: the source of the fill for an evaluated colour; \<open>Inr None\<close> is
  \<open>continue\<close>. A tuple of three raises, since \<open>color + [60]\<close> adds a list to it.
\<close>

definition fill_source :: "int \<Rightarrow> pyval \<Rightarrow> exn + draw_op option" where
  "fill_source sz c =
     (case c of
        PyList cs \<Rightarrow>
          if length cs = 3 then map_sum id Some (set_source_rgba (map (\<lambda>f. f / 255) (cs @ [60])))
          else if length cs = 4 then map_sum id Some (set_source_rgba (map (\<lambda>f. f / 255) cs))
          else Inr None
      | PyTuple cs \<Rightarrow>
          if length cs = 3 then Inl TypeError
          else if length cs = 4 then map_sum id Some (set_source_rgba (map (\<lambda>f. f / 255) cs))
          else Inr None
      | PyDict d \<Rightarrow> map_sum id Some (stripes sz d)
      | PyOther \<Rightarrow> Inr None)"

definition fill_ring :: "('g, 's) engine \<Rightarrow> view \<Rightarrow> string \<Rightarrow> point list \<Rightarrow> exn + draw_op list" where
  "fill_ring E V color_text ring =
     (case py_eval E color_text of
        Inl e \<Rightarrow> Inl e
      | Inr c \<Rightarrow>
          (case fill_source (size_px V) c of
             Inl e \<Rightarrow> Inl e
           | Inr None \<Rightarrow> Inr []
           | Inr (Some source) \<Rightarrow> Inr ([source, New_path] @ line_tos V ring @ [Fill])))"

definition fill_one :: "('g, 's) engine \<Rightarrow> view \<Rightarrow> 'g row \<times> 'g \<times> real \<Rightarrow> exn + draw_op list" where
  "fill_one E V d =
     (case d of (bdry, sh, ext_dim) \<Rightarrow>
        (case row_color bdry of
           None \<Rightarrow> Inr []
         | Some color_text \<Rightarrow> each (fill_ring E V color_text) (rings E sh)))"

definition outline_one :: "('g, 's) engine \<Rightarrow> view \<Rightarrow> real \<Rightarrow> 'g row \<times> 'g \<times> real \<Rightarrow> exn + draw_op list" where
  "outline_one E V pixel_width d =
     (case d of (bdry, sh, ext_dim) \<Rightarrow>
        if ext_dim < pixel_width * 3 then Inr []
        else Inr (concat (map (\<lambda>ring.
               [New_path] @ line_tos V ring @
               [Set_line_width (if ext_dim < pixel_width * 60 then 1 else 2.5),
                Set_source_rgba 0.3 0.3 0.3 0.75, Stroke_preserve])
             (rings E sh))))"

text \<open>
  Lines 332 to 357: the point of the label in the output projection; \<open>None\<close> is
  \<open>continue\<close>.
\<close>

definition label_anchor :: "('g, 's) engine \<Rightarrow> 's \<Rightarrow> 's \<Rightarrow> 'g \<Rightarrow> 'g row \<Rightarrow> 'g \<Rightarrow> point option" where
  "label_anchor E db_srs out_srs bbox bdry sh =
     (let first =
        (case row_label_point bdry of
           Some lp \<Rightarrow> Some (point_transform E db_srs out_srs lp)
         | None \<Rightarrow>
             (case Option.bind (intersection E bbox sh) (point_on_surface E) of
                Some pt \<Rightarrow> Some pt
              | None \<Rightarrow> (let pt = centroid_of E bbox in if contains E sh pt then Some pt else None)))
      in case first of
           None \<Rightarrow> None
         | Some pt \<Rightarrow>
             if contains E bbox pt then Some pt
             else (case intersection E bbox sh of
                     None \<Rightarrow> None
                   | Some inters \<Rightarrow>
                       if area E inters < area E bbox / 3 then None else point_on_surface E inters))"

text \<open>
  Lines 365 to 391, for the point \<open>pt\<close> of the label in pixels, the text and its
  extents \<open>(x_off, y_off, tw, th)\<close>: the test and the three drawings.
\<close>

definition fits :: "int \<Rightarrow> real \<Rightarrow> real \<Rightarrow> point \<Rightarrow> real \<times> real \<times> real \<times> real \<Rightarrow> bool" where
  "fits sz ext_dim pixel_width pt te =
     (case te of (x_off, y_off, tw, th) \<Rightarrow>
        tw < ext_dim / pixel_width / 5 \<and> th < ext_dim / pixel_width / 5 \<and>
        fst pt - x_off - tw / 2 - 4 > 0 \<and> snd pt - th - 4 > 0 \<and>
        fst pt - x_off + tw / 2 + 7 < real_of_int sz \<and> snd pt + 6 < real_of_int sz)"

definition plate :: "point \<Rightarrow> real \<times> real \<times> real \<times> real \<Rightarrow> draw_op list" where
  "plate pt te =
     (case te of (x_off, y_off, tw, th) \<Rightarrow>
        [Set_source_rgba 0 0 0 0.55, New_path,
         Line_to (fst pt - x_off - tw / 2 - 4) (snd pt - th - 4),
         Rel_line_to (tw + 9) 0, Rel_line_to 0 (th + 8), Rel_line_to (- tw - 9) 0, Fill])"

definition shadow :: "point \<Rightarrow> real \<times> real \<times> real \<times> real \<Rightarrow> draw_op list" where
  "shadow pt te =
     (case te of (x_off, y_off, tw, th) \<Rightarrow>
        [Set_source_rgba 0 0 0 0.3, New_path,
         Line_to (fst pt - x_off - tw / 2 - 4) (snd pt - th - 4),
         Rel_line_to (tw + 11) 0, Rel_line_to 0 (th + 10), Rel_line_to (- tw - 11) 0, Fill])"

definition label_text :: "point \<Rightarrow> real \<times> real \<times> real \<times> real \<Rightarrow> string \<Rightarrow> draw_op list" where
  "label_text pt te txt =
     (case te of (x_off, y_off, tw, th) \<Rightarrow>
        [Set_source_rgba 1 1 1 1, Move_to (fst pt - x_off - tw / 2) (snd pt), Show_text txt])"

definition draw_label ::
  "int \<Rightarrow> real \<Rightarrow> real \<Rightarrow> point \<Rightarrow> real \<times> real \<times> real \<times> real \<Rightarrow> string \<Rightarrow> exn + draw_op list" where
  "draw_label sz ext_dim pixel_width pt te txt =
     (if pixel_width = 0 then Inl ZeroDivisionError
      else if fits sz ext_dim pixel_width pt te
      then Inr (plate pt te @ shadow pt te @ label_text pt te txt)
      else Inr [])"

definition label_one ::
  "('g, 's) engine \<Rightarrow> view \<Rightarrow> 's \<Rightarrow> 's \<Rightarrow> 'g \<Rightarrow> real \<Rightarrow> 'g row \<times> 'g \<times> real \<Rightarrow> exn + draw_op list" where
  "label_one E V db_srs out_srs bbox pixel_width d =
     (case d of (bdry, sh, ext_dim) \<Rightarrow>
        if ext_dim < pixel_width * 20 then Inr []
        else (case label_anchor E db_srs out_srs bbox bdry sh of
          None \<Rightarrow> Inr []
        | Some world \<Rightarrow>
            let pt = viewport V world;
                txt = row_name bdry;
                font = (if ext_dim > real_of_int (size_px V) * pixel_width then 18 else 12)
            in map_sum id (\<lambda>drawn. Set_font_size font # drawn)
                 (draw_label (size_px V) ext_dim pixel_width pt (text_extents E font txt) txt)))"


subsection \<open>The view\<close>

definition render ::
  "('g, 's) engine \<Rightarrow> view \<Rightarrow> 's \<Rightarrow> 's \<Rightarrow> 'g \<Rightarrow> real \<Rightarrow> 'g row list \<Rightarrow> exn + draw_op list" where
  "render E V db_srs out_srs bbox pixel_width rows =
     (let ds = draw_shapes E db_srs out_srs pixel_width rows in
      case each (fill_one E V) ds of
        Inl e \<Rightarrow> Inl e
      | Inr shading \<Rightarrow>
          (case each (outline_one E V pixel_width) ds of
             Inl e \<Rightarrow> Inl e
           | Inr outlines \<Rightarrow>
               (case each (label_one E V db_srs out_srs bbox pixel_width) ds of
                  Inl e \<Rightarrow> Inl e
                | Inr labels \<Rightarrow>
                    Inr (Select_font_face (MAP_LABEL_FONT E) # shading @ outlines @ labels))))"

text \<open>
  Lines 180 to 189: the box of the tile in the output projection. The products are
  computed in the order of the source; each converts an integer to a float.
\<close>

definition tile_bbox :: "('g, 's) engine \<Rightarrow> 's \<Rightarrow> 's \<Rightarrow> int \<Rightarrow> int \<Rightarrow> int \<Rightarrow> exn + 'g" where
  "tile_bbox E db_srs out_srs tile_x tile_y tile_zoom =
     (let p = point_transform E db_srs out_srs (180, 0);
          world_left = - fst p;
          world_top = - world_left;
          world_size = fmul E (fst p) 2
      in case pow2 tile_zoom of
           Inl e \<Rightarrow> Inl e
         | Inr d \<Rightarrow>
             if d = 0 then Inl ZeroDivisionError
             else
               let tile_world_size = fdiv E world_size d in
               case float_times_int E tile_world_size tile_x of
                 Inl e \<Rightarrow> Inl e
               | Inr wx \<Rightarrow>
               case float_times_int E tile_world_size tile_y of
                 Inl e \<Rightarrow> Inl e
               | Inr wy \<Rightarrow>
               case float_times_int E tile_world_size (tile_x + 1) of
                 Inl e \<Rightarrow> Inl e
               | Inr wx1 \<Rightarrow>
               case float_times_int E tile_world_size (tile_y + 1) of
                 Inl e \<Rightarrow> Inl e
               | Inr wy1 \<Rightarrow>
                   let p1 = (fadd E world_left wx, fsub E world_top wy);
                       p2 = (fadd E world_left wx1, fsub E world_top wy1)
                   in Inr (polygon E out_srs
                        [(fst p1, snd p1), (fst p2, snd p1), (fst p2, snd p2), (fst p1, snd p2),
                         (fst p1, snd p1)]))"

text \<open>Lines 220 to 403: the response, once the rows of the query are known.\<close>

definition respond ::
  "('g, 's) engine \<Rightarrow> view \<Rightarrow> 's \<Rightarrow> 's \<Rightarrow> 'g \<Rightarrow> real \<Rightarrow> 'g row list \<Rightarrow> response" where
  "respond E V db_srs out_srs bbox pixel_width rows =
     (if length rows = 0
      then HttpResponse ''image/png'' \<lparr>width = 1, height = 1, ops = []\<rparr>
      else (case render E V db_srs out_srs bbox pixel_width rows of
              Inl e \<Rightarrow> Raised e
            | Inr drawn \<Rightarrow>
                HttpResponse ''image/png'' \<lparr>width = size_px V, height = size_px V, ops = drawn\<rparr>))"

text \<open>Lines 194 to 403, once the parameters are read and the box of the tile is known.\<close>

definition tile ::
  "('g, 's) engine \<Rightarrow> 'g boundary_set list \<Rightarrow> string \<Rightarrow> string option \<Rightarrow> int \<Rightarrow> 's \<Rightarrow> 's \<Rightarrow> 'g
     \<Rightarrow> response" where
  "tile E db s boundary_slug sz db_srs out_srs bbox =
     (case extent_of E bbox of (lon1, lat1, lon2, lat2) \<Rightarrow>
        if fsub E lon2 lon1 = 0 \<or> fsub E lat2 lat1 = 0 then Raised ZeroDivisionError
        else
          let V = \<lparr>size_px = sz, blon1 = lon1, blat1 = lat1,
                   b_x = fdiv E (real_of_int sz) (fsub E lon2 lon1),
                   b_y = fdiv E (real_of_int sz) (fsub E lat2 lat1)\<rparr>;
              db_bbox = transform E out_srs db_srs bbox;
              pixel_width = pixel_width_of E (extent_of E db_bbox) sz;
              rows = tile_boundaries E db s boundary_slug db_bbox pixel_width
          in respond E V db_srs out_srs bbox pixel_width rows)"

text \<open>
  The view, from line 131. The request is its query parameters; \<open>SpatialRefSys.objects.get\<close>
  raises DoesNotExist for an identifier that the table does not hold.
\<close>

definition boundaries_map_tiles ::
  "('g, 's) engine \<Rightarrow> 'g boundary_set list \<Rightarrow> (string \<rightharpoonup> string) \<Rightarrow> string \<Rightarrow> string option \<Rightarrow> response" where
  "boundaries_map_tiles E db GET s boundary_slug =
     (if \<not> has_imaging_library E then Http404 ''Cairo is not available.''
      else case py_int E (get_param GET ''size'' ''256'') of
        None \<Rightarrow> Http404 ''Invalid parameter.''
      | Some sz \<Rightarrow>
          if sz \<notin> {256, 512, 1024} then Http404 ''Invalid parameter.''
          else (case py_int E (get_param GET ''srs'' ''3857'') of
            None \<Rightarrow> Http404 ''Invalid parameter.''
          | Some srs \<Rightarrow>
              (case spatial_ref_sys E srs of
                 None \<Rightarrow> Raised DoesNotExist
               | Some out_srs \<Rightarrow>
                   (case spatial_ref_sys E (if srs = 3857 then 4055 else geometry_field_srid E) of
                      None \<Rightarrow> Raised DoesNotExist
                    | Some db_srs \<Rightarrow>
                        (case py_int E (get_param GET ''tile_x'' ''0'') of
                           None \<Rightarrow> Http404 ''Invalid parameter.''
                         | Some tile_x \<Rightarrow>
                             (case py_int E (get_param GET ''tile_y'' ''0'') of
                                None \<Rightarrow> Http404 ''Invalid parameter.''
                              | Some tile_y \<Rightarrow>
                                  (case py_int E (get_param GET ''tile_zoom'' ''0'') of
                                     None \<Rightarrow> Http404 ''Invalid parameter.''
                                   | Some tile_zoom \<Rightarrow>
                                       (case tile_bbox E db_srs out_srs tile_x tile_y tile_zoom of
                                          Inl e \<Rightarrow> Raised e
                                        | Inr bbox \<Rightarrow>
                                            tile E db s boundary_slug sz db_srs out_srs bbox))))))))"

subsection \<open>Reading the drawing\<close>

text \<open>
  The corners of the outlines that a list of calls builds: \<open>line_to\<close> and \<open>move_to\<close>
  go to a point, \<open>rel_line_to\<close> goes on from the current point, \<open>new_path\<close> forgets
  it.
\<close>

fun corners :: "point option \<Rightarrow> draw_op list \<Rightarrow> point list" where
  "corners cur [] = []"
| "corners cur (New_path # rest) = corners None rest"
| "corners cur (Line_to x y # rest) = (x, y) # corners (Some (x, y)) rest"
| "corners cur (Move_to x y # rest) = (x, y) # corners (Some (x, y)) rest"
| "corners (Some (cx, cy)) (Rel_line_to dx dy # rest) = (cx + dx, cy + dy) # corners (Some (cx + dx, cy + dy)) rest"
| "corners cur (other # rest) = corners cur rest"

definition inside :: "int \<Rightarrow> point \<Rightarrow> bool" where
  "inside sz p = (0 < fst p \<and> fst p < real_of_int sz \<and> 0 < snd p \<and> snd p < real_of_int sz)"

text \<open>
  The box of the ink of a text shown at \<open>origin\<close>, from its extents: the bearings
  \<open>(x_off, y_off)\<close> lead from the origin to the upper left corner of the ink, which is
  \<open>tw\<close> wide and \<open>th\<close> high.
\<close>

definition ink_box :: "point \<Rightarrow> real \<times> real \<times> real \<times> real \<Rightarrow> bounds" where
  "ink_box origin te =
     (case te of (x_off, y_off, tw, th) \<Rightarrow>
        (fst origin + x_off, snd origin + y_off, fst origin + x_off + tw, snd origin + y_off + th))"

definition box_inside :: "int \<Rightarrow> bounds \<Rightarrow> bool" where
  "box_inside sz b =
     (case b of (x0, y0, x1, y1) \<Rightarrow> 0 \<le> x0 \<and> x1 < real_of_int sz \<and> 0 \<le> y0 \<and> y1 < real_of_int sz)"

definition text_origin :: "point \<Rightarrow> real \<times> real \<times> real \<times> real \<Rightarrow> point" where
  "text_origin pt te = (case te of (x_off, y_off, tw, th) \<Rightarrow> (fst pt - x_off - tw / 2, snd pt))"

subsection \<open>Example data: an engine over boxes\<close>

text \<open>
  An engine for concrete requests: every spatial reference system it knows has the same
  coordinates, a polygon is the box around its points, simplification changes nothing, and
  a text is half its font size wide per character. Its arithmetic is the exact one, which
  is the arithmetic of floats wherever the result is a float: in the requests below this
  is the case for the box of the tile and for \<open>pixel_width\<close>.
\<close>

definition box_of_points :: "point list \<Rightarrow> box" where
  "box_of_points pts =
     (foldr min (map fst pts) (fst (hd pts)), foldr min (map snd pts) (snd (hd pts)),
      foldr max (map fst pts) (fst (hd pts)), foldr max (map snd pts) (snd (hd pts)))"

definition box_ring :: "box \<Rightarrow> point list" where
  "box_ring r = (case r of (x0, y0, x1, y1) \<Rightarrow> [(x0, y0), (x1, y0), (x1, y1), (x0, y1), (x0, y0)])"

definition box_centre :: "box \<Rightarrow> point" where
  "box_centre r = (case r of (x0, y0, x1, y1) \<Rightarrow> ((x0 + x1) / 2, (y0 + y1) / 2))"

definition box_contains :: "box \<Rightarrow> point \<Rightarrow> bool" where
  "box_contains r p = (case r of (x0, y0, x1, y1) \<Rightarrow> x0 \<le> fst p \<and> fst p \<le> x1 \<and> y0 \<le> snd p \<and> snd p \<le> y1)"

definition box_engine :: "(box, int) engine" where
  "box_engine =
     \<lparr>has_imaging_library = True,
      SIMPLE_SHAPE_TOLERANCE = 1 / 128,
      MAP_LABEL_FONT = ''Sans'',
      geometry_field_srid = 4326,
      spatial_ref_sys = (\<lambda>n. if n = 3857 \<or> n = 4055 \<or> n = 4326 then Some n else None),
      point_transform = (\<lambda>from to p. p),
      polygon = (\<lambda>srs pts. box_of_points pts),
      transform = (\<lambda>from to g. g),
      extent_of = (\<lambda>g. g),
      simplify = (\<lambda>tolerance g. g),
      rings = (\<lambda>g. [box_ring g]),
      shape_intersects = (\<lambda>r s. \<not> box_empty (box_inter r s)),
      intersection = (\<lambda>r s. Some (box_inter r s)),
      point_on_surface = (\<lambda>g. Some (box_centre g)),
      contains = box_contains,
      area = box_area,
      centroid_of = box_centre,
      py_eval = (\<lambda>s. if s = ''[255, 0, 0]'' then Inr (PyList [255, 0, 0]) else Inl (Error ''SyntaxError'')),
      text_extents = (\<lambda>font txt. (1, - (font * 3 / 4), real (length txt) * font / 2, font * 3 / 4)),
      py_int = ascii_int,
      fadd = (\<lambda>x y. x + y),
      fsub = (\<lambda>x y. x - y),
      fmul = (\<lambda>x y. x * y),
      fdiv = (\<lambda>x y. x / y),
      float_of_int = real_of_int\<rparr>"

text \<open>
  The same engine with the one rounding that matters at a deep zoom: a float has 53
  significant bits, so a term smaller in absolute value than \<open>2 ^ - 54\<close> times the other
  one is lost in a sum or a difference, whose result is the other term. The other sums of
  the request below are exact.
\<close>

definition deep_engine :: "(box, int) engine" where
  "deep_engine = box_engine
     \<lparr>fadd := (\<lambda>x y. if \<bar>y\<bar> * 2 ^ 54 < \<bar>x\<bar> then x else x + y),
      fsub := (\<lambda>x y. if \<bar>y\<bar> * 2 ^ 54 < \<bar>x\<bar> then x else x - y)\<rparr>"

text \<open>
  A set without boundaries, and a set of one boundary, in the upper left corner of the
  world, whose simplified shape is not its shape.
\<close>

definition db0 :: "box boundary_set list" where
  "db0 = [\<lparr>set_slug = ''wards'', boundaries = []\<rparr>]"

definition n1 :: "box boundary" where
  "n1 = (mk_boundary ''n1'' (- 180, 178, - 179, 180))\<lparr>simple_shape := (- 180, 178, - 179, 179)\<rparr>"

definition db4 :: "box boundary_set list" where
  "db4 = [\<lparr>set_slug = ''wards'', boundaries = [n1]\<rparr>]"



section \<open>Properties of the overlap report\<close>

lemma process_pair_ok:
  assumes "emitted_ok G m sa sb as bs st" "a \<in> set as" "b \<in> set bs" "a_slug = slug a"
    "g_intersects G (shape b) (shape a)"
  shows "emitted_ok G m sa sb as bs (snd (process_pair G fmt m sa sb a_slug a (g_area G (shape a)) b st))"
proof (cases "g_intersection G (shape a) (shape b)")
  case (Inl e)
  then show ?thesis using assms(1) by (simp add: process_pair_def emitted_ok_def)
next
  case (Inr geometry)
  show ?thesis
  proof (cases "passes G a b geometry")
    case False
    then show ?thesis using Inr assms(1)
      by (auto simp: process_pair_def passes_def Let_def)
  next
    case True
    have r: "from_pair G as bs (csv_row G) (csv_row G a b geometry)"
      and j: "from_pair G as bs (json_of G m sa sb) (json_of G m sa sb a b geometry)"
      using True assms(2,3,5) unfolding from_pair_def by blast+
    from True have pp: "process_pair G fmt m sa sb a_slug a (g_area G (shape a)) b st =
      (None, case fmt of Csv \<Rightarrow> st\<lparr>out := out st @ [csv_row G a b geometry]\<rparr>
         | Json \<Rightarrow> st\<lparr>outputs := outputs st @ [json_of G m sa sb a b geometry]\<rparr>
         | Other_format \<Rightarrow> st)"
      using Inr assms(4) by (cases fmt) (simp_all add: process_pair_def passes_def Let_def csv_row_def json_of_def not_less [symmetric])
    show ?thesis using assms(1) r j unfolding pp
      by (cases fmt) (auto simp: emitted_ok_def)
  qed
qed


lemma get_by_Inr: "get_by key rows s = Inr r \<Longrightarrow> r \<in> set rows \<and> key r = s"
proof -
  assume g: "get_by key rows s = Inr r"
  then have "filter (\<lambda>r. key r = s) rows = [r]"
    by (auto simp: get_by_def split: list.splits)
  then have "r \<in> set (filter (\<lambda>r. key r = s) rows)" by simp
  then show ?thesis by simp
qed

lemma inner_loop_ok:
  assumes "emitted_ok G m sa sb as bs st" "a \<in> set as" "a_slug = slug a"
    "set cs \<subseteq> {b \<in> set bs. g_intersects G (shape b) (shape a)}"
  shows "emitted_ok G m sa sb as bs (snd (inner_loop G fmt m sa sb a_slug a (g_area G (shape a)) cs st))"
  using assms
proof (induction cs arbitrary: st)
  case Nil
  then show ?case by simp
next
  case (Cons b cs)
  from Cons.prems have b: "b \<in> set bs" "g_intersects G (shape b) (shape a)" by auto
  have ok: "emitted_ok G m sa sb as bs (snd (process_pair G fmt m sa sb a_slug a (g_area G (shape a)) b st))"
    using process_pair_ok [OF Cons.prems(1,2) b(1) Cons.prems(3) b(2)] .
  obtain e st' where pp: "process_pair G fmt m sa sb a_slug a (g_area G (shape a)) b st = (e, st')"
    by (cases "process_pair G fmt m sa sb a_slug a (g_area G (shape a)) b st")
  show ?case
  proof (cases e)
    case None
    have "emitted_ok G m sa sb as bs (snd (inner_loop G fmt m sa sb a_slug a (g_area G (shape a)) cs st'))"
      using Cons.IH [of st'] ok pp Cons.prems by simp
    then show ?thesis using pp None by simp
  next
    case (Some x)
    then show ?thesis using ok pp by simp
  qed
qed

lemma outer_loop_ok:
  assumes "emitted_ok G m (set_slug A) (set_slug B) (boundaries A) (boundaries B) st"
  shows "emitted_ok G m (set_slug A) (set_slug B) (boundaries A) (boundaries B)
           (snd (outer_loop G fmt m A B slugs st))"
  using assms
proof (induction slugs arbitrary: st)
  case Nil
  then show ?case by simp
next
  case (Cons a_slug rest)
  show ?case
  proof (cases "get_by slug (boundaries A) a_slug")
    case (Inl e)
    then show ?thesis using Cons.prems by simp
  next
    case (Inr a)
    let ?cs = "filter (\<lambda>b. g_intersects G (shape b) (shape a)) (boundaries B)"
    let ?r = "inner_loop G fmt m (set_slug A) (set_slug B) a_slug a (g_area G (shape a)) ?cs st"
    from get_by_Inr [OF Inr] have a: "a \<in> set (boundaries A)" "a_slug = slug a" by auto
    have ok: "emitted_ok G m (set_slug A) (set_slug B) (boundaries A) (boundaries B) (snd ?r)"
      by (rule inner_loop_ok [OF Cons.prems a]) auto
    obtain e st' where r: "?r = (e, st')" by (cases ?r)
    show ?thesis
    proof (cases e)
      case None
      then show ?thesis using Cons.IH [of st'] ok r Inr by simp
    next
      case (Some x)
      then show ?thesis using ok r Inr by simp
    qed
  qed
qed

lemma handle_cases:
  "handle G db args fmt m = (e, st) \<Longrightarrow>
     (length args < 2 \<and> e = None \<and> st = run0\<lparr>out := [Usage]\<rparr>) \<or>
     (2 \<le> length args \<and> e \<noteq> None \<and> st = run0 \<and>
        (get_by set_slug db (args ! 0) = Inl (the e) \<or>
         (\<exists>A. get_by set_slug db (args ! 0) = Inr A) \<and> get_by set_slug db (args ! 1) = Inl (the e))) \<or>
     (\<exists>A B st'. 2 \<le> length args \<and> get_by set_slug db (args ! 0) = Inr A \<and>
        get_by set_slug db (args ! 1) = Inr B \<and>
        outer_loop G fmt m A B (slugs_in_order A)
          (if fmt = Csv then run0\<lparr>out := [Header (set_slug A) (set_slug B)]\<rparr> else run0) = (e, st') \<and>
        st = (if e = None \<and> fmt = Json then st'\<lparr>out := out st' @ [Dump (outputs st')]\<rparr> else st'))"
  by (auto simp: handle_def Let_def split: if_splits sum.splits prod.splits option.splits)


lemma map_of_dict3:
  "map_of (dict [(k1, v1), (k2, v2), (k3, v3)]) = [k1 \<mapsto> v1, k2 \<mapsto> v2, k3 \<mapsto> v3]"
  by (rule ext) (simp add: dict_def update_conv')

lemma side_fields:
  "\<exists>d. side b s ar r = JDict d \<and> map_of d ''slug'' = Some (JStr s) \<and> map_of d ''ratio'' = Some (JNum r)
     \<and> map_of d ''area'' = Some (JNum ar) \<and> map_of d ''id'' = Some (JStr (external_id b))
     \<and> map_of d ''name'' = Some (JStr (name b))"
  by (simp add: side_def dict_def update_conv')

lemma ratio_b:
  "path [sb, ''ratio''] (json_record G m sa sb a_slug a aa b ba ia) = Some (JNum (g_div G ia ba))"
proof -
  obtain da where da: "side a a_slug aa (g_div G ia aa) = JDict da" "map_of da ''ratio'' = Some (JNum (g_div G ia aa))"
    using side_fields [of a a_slug aa "g_div G ia aa"] by blast
  obtain db where db: "side b (slug b) ba (g_div G ia ba) = JDict db" "map_of db ''ratio'' = Some (JNum (g_div G ia ba))"
    using side_fields [of b "slug b" ba "g_div G ia ba"] by blast
  show ?thesis
    by (cases m) (auto simp: json_record_def Let_def field_def map_of_dict3 set_metadata_def da db update_conv')
qed

lemma ratio_a:
  "sa \<noteq> sb \<Longrightarrow> path [sa, ''ratio''] (json_record G m sa sb a_slug a aa b ba ia) = Some (JNum (g_div G ia aa))"
proof -
  assume ne: "sa \<noteq> sb"
  obtain da where da: "side a a_slug aa (g_div G ia aa) = JDict da" "map_of da ''ratio'' = Some (JNum (g_div G ia aa))"
    using side_fields [of a a_slug aa "g_div G ia aa"] by blast
  obtain db where db: "side b (slug b) ba (g_div G ia ba) = JDict db" "map_of db ''ratio'' = Some (JNum (g_div G ia ba))"
    using side_fields [of b "slug b" ba "g_div G ia ba"] by blast
  show ?thesis using ne
    by (cases m) (auto simp: json_record_def Let_def field_def map_of_dict3 set_metadata_def da db update_conv')
qed

lemma rows_of_handle:
  assumes h: "handle G db args fmt m = (e, st)"
  shows "(\<forall>A B. get_by set_slug db (args ! 0) = Inr A \<longrightarrow> get_by set_slug db (args ! 1) = Inr B \<longrightarrow>
            (\<forall>l \<in> set (out st). (\<forall>recs. l \<noteq> Dump recs) \<longrightarrow> l = Usage \<or> l = Header (set_slug A) (set_slug B) \<or>
               from_pair G (boundaries A) (boundaries B) (csv_row G) l) \<and>
            (\<forall>recs r. Dump recs \<in> set (out st) \<longrightarrow> r \<in> set recs \<longrightarrow>
               from_pair G (boundaries A) (boundaries B) (json_of G m (set_slug A) (set_slug B)) r)) \<and>
         ((\<exists>l \<in> set (out st). l \<noteq> Usage) \<longrightarrow>
            (\<exists>A B. get_by set_slug db (args ! 0) = Inr A \<and> get_by set_slug db (args ! 1) = Inr B))"
proof -
  from handle_cases [OF h] consider
      (usage) "st = run0\<lparr>out := [Usage]\<rparr>" "length args < 2"
    | (missing) "st = run0" "e \<noteq> None"
    | (loop) A B st' where "get_by set_slug db (args ! 0) = Inr A" "get_by set_slug db (args ! 1) = Inr B"
        "outer_loop G fmt m A B (slugs_in_order A)
          (if fmt = Csv then run0\<lparr>out := [Header (set_slug A) (set_slug B)]\<rparr> else run0) = (e, st')"
        "st = (if e = None \<and> fmt = Json then st'\<lparr>out := out st' @ [Dump (outputs st')]\<rparr> else st')"
    by blast
  then show ?thesis
  proof cases
    case usage
    then show ?thesis by (simp add: run0_def)
  next
    case missing
    then show ?thesis by (simp add: run0_def)
  next
    case loop
    let ?st0 = "if fmt = Csv then run0\<lparr>out := [Header (set_slug A) (set_slug B)]\<rparr> else run0"
    have "emitted_ok G m (set_slug A) (set_slug B) (boundaries A) (boundaries B) ?st0"
      by (simp add: emitted_ok_def run0_def)
    from outer_loop_ok [OF this, of fmt "slugs_in_order A"] loop(3)
    have ok: "emitted_ok G m (set_slug A) (set_slug B) (boundaries A) (boundaries B) st'" by simp
    have nodump: "Dump recs \<notin> set (out st')" for recs
      using ok by (auto simp: emitted_ok_def from_pair_def csv_row_def)
    show ?thesis using ok nodump loop(1,2,4)
      by (auto simp: emitted_ok_def split: if_splits)
  qed
qed

lemma process_pair_discards:
  assumes "\<forall>geometry. \<not> passes G a b geometry"
  shows "out (snd (process_pair G fmt m sa sb a_slug a (g_area G (shape a)) b st)) = out st \<and>
         outputs (snd (process_pair G fmt m sa sb a_slug a (g_area G (shape a)) b st)) = outputs st"
proof (cases "g_intersection G (shape a) (shape b)")
  case (Inl e)
  then show ?thesis by (simp add: process_pair_def)
next
  case (Inr geometry)
  with assms have "\<not> passes G a b geometry" by blast
  then show ?thesis using Inr by (auto simp: process_pair_def passes_def Let_def)
qed

text \<open>
  Claim C1, as the code has it. Whatever the run of the command (it may end in an
  exception), every CSV row on standard output and every record of the dumped JSON array
  comes from a pair \<open>(a, b)\<close> of a boundary of the first set and a boundary of the second
  whose intersection was computed and is not empty; the two ratio fields are the floats
  \<open>int_area / a_area\<close> and \<open>int_area / b_area\<close>, the quotients of the areas as the
  division of floats rounds them (in JSON, the field \<open>ratio\<close> of the sub-record under
  the slug of the second set, and of the one under the slug of the first set when the two
  slugs differ), and neither is below the float \<open>.001\<close>. A pair that does not pass this
  filter adds nothing to the rows and records. The ratios are at least \<open>.001\<close>, not
  necessarily above it: the code skips a pair only when a ratio is below \<open>.001\<close>.
\<close>

theorem emitted_ratios_reach_threshold:
  assumes "handle G db args fmt m = (e, st)"
  shows "(Row a_slug a_area b_slug b_area int_area r1 r2 \<in> set (out st) \<longrightarrow>
            r1 = g_div G int_area a_area \<and> r2 = g_div G int_area b_area \<and> point_001 \<le> r1 \<and> point_001 \<le> r2 \<and>
            (\<exists>A B a b geometry.
               get_by set_slug db (args ! 0) = Inr A \<and> get_by set_slug db (args ! 1) = Inr B \<and>
               a \<in> set (boundaries A) \<and> b \<in> set (boundaries B) \<and> passes G a b geometry \<and>
               a_slug = slug a \<and> b_slug = slug b \<and> a_area = g_area G (shape a) \<and>
               b_area = g_area G (shape b) \<and> int_area = g_area G geometry)) \<and>
         (Dump recs \<in> set (out st) \<and> r \<in> set recs \<longrightarrow>
            (\<exists>A B a b geometry.
               get_by set_slug db (args ! 0) = Inr A \<and> get_by set_slug db (args ! 1) = Inr B \<and>
               a \<in> set (boundaries A) \<and> b \<in> set (boundaries B) \<and> passes G a b geometry \<and>
               r = json_record G m (set_slug A) (set_slug B) (slug a) a (g_area G (shape a)) b
                     (g_area G (shape b)) (g_area G geometry) \<and>
               path [set_slug B, ''ratio''] r = Some (JNum (g_div G (g_area G geometry) (g_area G (shape b)))) \<and>
               (set_slug A \<noteq> set_slug B \<longrightarrow>
                  path [set_slug A, ''ratio''] r = Some (JNum (g_div G (g_area G geometry) (g_area G (shape a))))))) \<and>
         ((\<forall>geometry. \<not> passes G a' b' geometry) \<longrightarrow>
            out (snd (process_pair G fmt m sa sb s a' (g_area G (shape a')) b' st0)) = out st0 \<and>
            outputs (snd (process_pair G fmt m sa sb s a' (g_area G (shape a')) b' st0)) = outputs st0)"
proof (intro conjI impI)
  assume row: "Row a_slug a_area b_slug b_area int_area r1 r2 \<in> set (out st)"
  let ?l = "Row a_slug a_area b_slug b_area int_area r1 r2"
  from rows_of_handle [OF assms] row obtain A B where
    AB: "get_by set_slug db (args ! 0) = Inr A" "get_by set_slug db (args ! 1) = Inr B" by blast
  with rows_of_handle [OF assms] row have "from_pair G (boundaries A) (boundaries B) (csv_row G) ?l"
    by fastforce
  then obtain a b geometry where
    ab: "a \<in> set (boundaries A)" "b \<in> set (boundaries B)" "passes G a b geometry"
      "?l = csv_row G a b geometry"
    unfolding from_pair_def by blast
  from ab(4) have eqs: "a_slug = slug a" "b_slug = slug b" "a_area = g_area G (shape a)"
    "b_area = g_area G (shape b)" "int_area = g_area G geometry"
    "r1 = g_div G int_area a_area" "r2 = g_div G int_area b_area"
    by (simp_all add: csv_row_def)
  from ab(3) eqs have "point_001 \<le> r1" "point_001 \<le> r2" by (simp_all add: passes_def)
  then show "r1 = g_div G int_area a_area" "r2 = g_div G int_area b_area" "point_001 \<le> r1" "point_001 \<le> r2"
    using eqs by simp_all
  show "\<exists>A B a b geometry.
               get_by set_slug db (args ! 0) = Inr A \<and> get_by set_slug db (args ! 1) = Inr B \<and>
               a \<in> set (boundaries A) \<and> b \<in> set (boundaries B) \<and> passes G a b geometry \<and>
               a_slug = slug a \<and> b_slug = slug b \<and> a_area = g_area G (shape a) \<and>
               b_area = g_area G (shape b) \<and> int_area = g_area G geometry"
    using AB ab(1-3) eqs(1-5) by blast
next
  assume d: "Dump recs \<in> set (out st) \<and> r \<in> set recs"
  then have "\<exists>l \<in> set (out st). l \<noteq> Usage" by blast
  with rows_of_handle [OF assms] obtain A B where
    AB: "get_by set_slug db (args ! 0) = Inr A" "get_by set_slug db (args ! 1) = Inr B" by blast
  with rows_of_handle [OF assms] d
  have "from_pair G (boundaries A) (boundaries B) (json_of G m (set_slug A) (set_slug B)) r"
    by blast
  then obtain a b geometry where
    ab: "a \<in> set (boundaries A)" "b \<in> set (boundaries B)" "passes G a b geometry"
      "r = json_of G m (set_slug A) (set_slug B) a b geometry"
    unfolding from_pair_def by blast
  show "\<exists>A B a b geometry.
               get_by set_slug db (args ! 0) = Inr A \<and> get_by set_slug db (args ! 1) = Inr B \<and>
               a \<in> set (boundaries A) \<and> b \<in> set (boundaries B) \<and> passes G a b geometry \<and>
               r = json_record G m (set_slug A) (set_slug B) (slug a) a (g_area G (shape a)) b
                     (g_area G (shape b)) (g_area G geometry) \<and>
               path [set_slug B, ''ratio''] r = Some (JNum (g_div G (g_area G geometry) (g_area G (shape b)))) \<and>
               (set_slug A \<noteq> set_slug B \<longrightarrow>
                  path [set_slug A, ''ratio''] r = Some (JNum (g_div G (g_area G geometry) (g_area G (shape a)))))"
    using AB ab(1-3) ratio_b [of "set_slug B" G m "set_slug A" "slug a" a "g_area G (shape a)" b
        "g_area G (shape b)" "g_area G geometry"]
      ratio_a [of "set_slug A" "set_slug B" G m "slug a" a "g_area G (shape a)" b
        "g_area G (shape b)" "g_area G geometry"]
    unfolding ab(4) json_of_def by blast
next
  assume "\<forall>geometry. \<not> passes G a' b' geometry"
  from process_pair_discards [OF this]
  show "out (snd (process_pair G fmt m sa sb s a' (g_area G (shape a')) b' st0)) = out st0"
    and "outputs (snd (process_pair G fmt m sa sb s a' (g_area G (shape a')) b' st0)) = outputs st0"
    by blast+
qed

subsection \<open>Concrete runs\<close>

lemma run_db1_csv: "handle box_geos db1 [''wards'', ''districts''] Csv False =
   (None, \<lparr>out = [Header ''wards'' ''districts'', Row ''w1'' 1024 ''d1'' (524288 * point_001) (1024 * point_001) point_001 (1 / 512)],
       err = [], outputs = []\<rparr>)"
  by (simp add: handle_def get_by_def db1_def w1_def d1_def mk_boundary_def slugs_in_order_def run0_def process_pair_def
      box_geos_def box_inter_def box_area_def box_empty_def point_001_def Let_def)

lemma run_db1_json: "handle box_geos db1 [''wards'', ''districts''] Json m =
   (None, \<lparr>out = [Dump [json_record box_geos m ''wards'' ''districts'' ''w1'' w1 1024 d1 (524288 * point_001) (1024 * point_001)]],
       err = [], outputs = [json_record box_geos m ''wards'' ''districts'' ''w1'' w1 1024 d1 (524288 * point_001) (1024 * point_001)]\<rparr>)"
  by (simp add: handle_def get_by_def db1_def w1_def d1_def mk_boundary_def slugs_in_order_def run0_def process_pair_def
      box_geos_def box_inter_def box_area_def box_empty_def point_001_def Let_def)

lemma touching_fails: "\<forall>geometry. \<not> passes box_geos (mk_boundary ''p'' (0, 0, 1, 1)) (mk_boundary ''q'' (1, 0, 2, 1)) geometry"
  by (simp add: passes_def box_geos_def mk_boundary_def box_inter_def box_area_def box_empty_def point_001_def)

text \<open>
  The claim as stated asks for ratios above 0.001. In this run the first ratio of the one
  emitted row is the float \<open>.001\<close> itself, which the test of line 57 does not find
  below \<open>.001\<close>.
\<close>

theorem emitted_ratio_equal_to_threshold:
  "Row ''w1'' 1024 ''d1'' (524288 * point_001) (1024 * point_001) point_001 (1 / 512)
     \<in> set (out (snd (handle box_geos db1 [''wards'', ''districts''] Csv False))) \<and>
   \<not> point_001 < point_001"
  by (simp add: run_db1_csv)

theorem emitted_ratios_reach_threshold_witness:
  "Row ''w1'' 1024 ''d1'' (524288 * point_001) (1024 * point_001) point_001 (1 / 512)
     \<in> set (out (snd (handle box_geos db1 [''wards'', ''districts''] Csv False))) \<and>
   point_001 \<le> 1 / 512 \<and>
   Dump [json_record box_geos True ''wards'' ''districts'' ''w1'' w1 1024 d1 (524288 * point_001) (1024 * point_001)]
     \<in> set (out (snd (handle box_geos db1 [''wards'', ''districts''] Json True))) \<and>
   (\<exists>A B a b geometry.
      get_by set_slug db1 ([''wards'', ''districts''] ! 0) = Inr A \<and>
      get_by set_slug db1 ([''wards'', ''districts''] ! 1) = Inr B \<and>
      a \<in> set (boundaries A) \<and> b \<in> set (boundaries B) \<and> passes box_geos a b geometry \<and>
      json_record box_geos True ''wards'' ''districts'' ''w1'' w1 1024 d1 (524288 * point_001) (1024 * point_001) =
        json_record box_geos True (set_slug A) (set_slug B) (slug a) a (g_area box_geos (shape a)) b
          (g_area box_geos (shape b)) (g_area box_geos geometry) \<and>
      path [set_slug B, ''ratio''] (json_record box_geos True ''wards'' ''districts'' ''w1'' w1 1024 d1 (524288 * point_001) (1024 * point_001)) =
        Some (JNum (g_div box_geos (g_area box_geos geometry) (g_area box_geos (shape b)))) \<and>
      path [set_slug A, ''ratio''] (json_record box_geos True ''wards'' ''districts'' ''w1'' w1 1024 d1 (524288 * point_001) (1024 * point_001)) =
        Some (JNum (g_div box_geos (g_area box_geos geometry) (g_area box_geos (shape a))))) \<and>
   out (snd (process_pair box_geos Csv False ''s'' ''t'' ''p'' (mk_boundary ''p'' (0, 0, 1, 1))
          (g_area box_geos (shape (mk_boundary ''p'' (0, 0, 1, 1)))) (mk_boundary ''q'' (1, 0, 2, 1)) run0)) = out run0"
proof -
  let ?args = "[''wards'', ''districts'']"
  let ?r = "json_record box_geos True ''wards'' ''districts'' ''w1'' w1 1024 d1 (524288 * point_001) (1024 * point_001)"
  note c = emitted_ratios_reach_threshold [OF run_db1_csv,
      of "''w1''" 1024 "''d1''" "524288 * point_001" "1024 * point_001" point_001 "1 / 512" "[]" JNull
         "mk_boundary ''p'' (0, 0, 1, 1)" "mk_boundary ''q'' (1, 0, 2, 1)" "''s''" "''t''" "''p''" run0]
  note j = emitted_ratios_reach_threshold [OF run_db1_json [of True],
      of "''w1''" 1024 "''d1''" "524288 * point_001" "1024 * point_001" point_001 "1 / 512" "[?r]" ?r
         "mk_boundary ''p'' (0, 0, 1, 1)" "mk_boundary ''q'' (1, 0, 2, 1)" "''s''" "''t''" "''p''" run0]
  have 1: "Row ''w1'' 1024 ''d1'' (524288 * point_001) (1024 * point_001) point_001 (1 / 512)
     \<in> set (out (snd (handle box_geos db1 ?args Csv False)))"
    by (simp add: run_db1_csv)
  have 2: "point_001 \<le> 1 / 512" using c by simp
  have 3: "Dump [?r] \<in> set (out (snd (handle box_geos db1 ?args Json True)))"
    by (simp add: run_db1_json)
  from j have "\<exists>A B a b geometry.
      get_by set_slug db1 (?args ! 0) = Inr A \<and>
      get_by set_slug db1 (?args ! 1) = Inr B \<and>
      a \<in> set (boundaries A) \<and> b \<in> set (boundaries B) \<and> passes box_geos a b geometry \<and>
      ?r = json_record box_geos True (set_slug A) (set_slug B) (slug a) a (g_area box_geos (shape a)) b
          (g_area box_geos (shape b)) (g_area box_geos geometry) \<and>
      path [set_slug B, ''ratio''] ?r = Some (JNum (g_div box_geos (g_area box_geos geometry) (g_area box_geos (shape b)))) \<and>
      (set_slug A \<noteq> set_slug B \<longrightarrow> path [set_slug A, ''ratio''] ?r =
        Some (JNum (g_div box_geos (g_area box_geos geometry) (g_area box_geos (shape a)))))"
    by simp
  then obtain A B a b geometry where w:
      "get_by set_slug db1 (?args ! 0) = Inr A"
      "get_by set_slug db1 (?args ! 1) = Inr B"
      "a \<in> set (boundaries A)" "b \<in> set (boundaries B)" "passes box_geos a b geometry"
      "?r = json_record box_geos True (set_slug A) (set_slug B) (slug a) a (g_area box_geos (shape a)) b
          (g_area box_geos (shape b)) (g_area box_geos geometry)"
      "path [set_slug B, ''ratio''] ?r = Some (JNum (g_div box_geos (g_area box_geos geometry) (g_area box_geos (shape b))))"
      "set_slug A \<noteq> set_slug B \<longrightarrow> path [set_slug A, ''ratio''] ?r =
        Some (JNum (g_div box_geos (g_area box_geos geometry) (g_area box_geos (shape a))))"
    by blast
  from w(1,2) have "set_slug A \<noteq> set_slug B"
    by (auto simp: get_by_def db1_def split: if_splits)
  with w have 4: "\<exists>A B a b geometry.
      get_by set_slug db1 (?args ! 0) = Inr A \<and>
      get_by set_slug db1 (?args ! 1) = Inr B \<and>
      a \<in> set (boundaries A) \<and> b \<in> set (boundaries B) \<and> passes box_geos a b geometry \<and>
      ?r = json_record box_geos True (set_slug A) (set_slug B) (slug a) a (g_area box_geos (shape a)) b
          (g_area box_geos (shape b)) (g_area box_geos geometry) \<and>
      path [set_slug B, ''ratio''] ?r = Some (JNum (g_div box_geos (g_area box_geos geometry) (g_area box_geos (shape b)))) \<and>
      path [set_slug A, ''ratio''] ?r = Some (JNum (g_div box_geos (g_area box_geos geometry) (g_area box_geos (shape a))))"
    by blast
  have 5: "out (snd (process_pair box_geos Csv False ''s'' ''t'' ''p'' (mk_boundary ''p'' (0, 0, 1, 1))
          (g_area box_geos (shape (mk_boundary ''p'' (0, 0, 1, 1)))) (mk_boundary ''q'' (1, 0, 2, 1)) run0)) = out run0"
    using c touching_fails by blast
  from 1 2 3 4 5 show ?thesis by blast
qed

section \<open>Exceptions in the overlap report\<close>




lemma get_by_missing: "s \<notin> set (map key rows) \<Longrightarrow> get_by key rows s = Inl DoesNotExist"
proof -
  assume "s \<notin> set (map key rows)"
  then have "filter (\<lambda>r. key r = s) rows = []"
    by (auto simp: filter_empty_conv)
  then show ?thesis by (simp add: get_by_def)
qed

lemma filter_distinct_key:
  "distinct (map key rows) \<Longrightarrow> length (filter (\<lambda>r. key r = s) rows) \<le> 1"
proof (induction rows)
  case Nil
  then show ?case by simp
next
  case (Cons r rows)
  show ?case
  proof (cases "key r = s")
    case True
    with Cons.prems have "s \<notin> set (map key rows)" by auto
    then have "filter (\<lambda>r. key r = s) rows = []" by (auto simp: filter_empty_conv)
    with True show ?thesis by simp
  next
    case False
    with Cons show ?thesis by simp
  qed
qed

lemma get_by_distinct:
  assumes "distinct (map key rows)"
  shows "get_by key rows s = Inl DoesNotExist \<or> (\<exists>r. get_by key rows s = Inr r)"
proof -
  from filter_distinct_key [OF assms, of s]
  show ?thesis by (auto simp: get_by_def split: list.splits)
qed

text \<open>
  Claim C4, as the code has it. With fewer than two arguments the command prints its usage
  message and returns. With two arguments of which one names no boundary set, \<open>handle\<close>
  prints nothing and ends in an exception that nothing in the command catches:
  \<open>BoundarySet.DoesNotExist\<close> when the slugs of the sets are unique.
\<close>

theorem missing_set_raises:
  "(length args < 2 \<longrightarrow> handle G db args fmt m = (None, run0\<lparr>out := [Usage]\<rparr>)) \<and>
   (2 \<le> length args \<and> (args ! 0 \<notin> set (map set_slug db) \<or> args ! 1 \<notin> set (map set_slug db)) \<longrightarrow>
      (\<exists>x. handle G db args fmt m = (Some x, run0)) \<and>
      (distinct (map set_slug db) \<longrightarrow> handle G db args fmt m = (Some DoesNotExist, run0)))"
proof (intro conjI impI)
  assume "length args < 2"
  then show "handle G db args fmt m = (None, run0\<lparr>out := [Usage]\<rparr>)"
    by (simp add: handle_def)
next
  assume a: "2 \<le> length args \<and> (args ! 0 \<notin> set (map set_slug db) \<or> args ! 1 \<notin> set (map set_slug db))"
  then have len: "\<not> length args < 2" by simp
  show "\<exists>x. handle G db args fmt m = (Some x, run0)"
  proof (cases "args ! 0 \<in> set (map set_slug db)")
    case False
    from get_by_missing [OF this] len show ?thesis by (simp add: handle_def)
  next
    case True
    with a have "args ! 1 \<notin> set (map set_slug db)" by blast
    from get_by_missing [OF this] len show ?thesis
      by (cases "get_by set_slug db (args ! 0)") (simp_all add: handle_def)
  qed
  assume d: "distinct (map set_slug db)"
  show "handle G db args fmt m = (Some DoesNotExist, run0)"
  proof (cases "args ! 0 \<in> set (map set_slug db)")
    case False
    from get_by_missing [OF this] len show ?thesis by (simp add: handle_def)
  next
    case True
    with a have "args ! 1 \<notin> set (map set_slug db)" by blast
    from get_by_missing [OF this] get_by_distinct [OF d, of "args ! 0"] len show ?thesis
      by (auto simp: handle_def)
  qed
qed

theorem missing_set_raises_witness:
  "handle box_geos db1 [''wards''] Csv False = (None, \<lparr>out = [Usage], err = [], outputs = []\<rparr>) \<and>
   ''parishes'' \<notin> set (map set_slug db1) \<and> distinct (map set_slug db1) \<and>
   handle box_geos db1 [''wards'', ''parishes''] Json True = (Some DoesNotExist, run0)"
proof -
  have 1: "length [''wards''] < 2" by simp
  have 2: "''parishes'' \<notin> set (map set_slug db1)" "distinct (map set_slug db1)"
    by (simp_all add: db1_def)
  from missing_set_raises [of "[''wards'']" box_geos db1 Csv False] 1
  have a: "handle box_geos db1 [''wards''] Csv False = (None, \<lparr>out = [Usage], err = [], outputs = []\<rparr>)"
    by (simp add: run0_def)
  from missing_set_raises [of "[''wards'', ''parishes'']" box_geos db1 Json True] 2
  have b: "handle box_geos db1 [''wards'', ''parishes''] Json True = (Some DoesNotExist, run0)"
    by simp
  from a b 2 show ?thesis by blast
qed


text \<open>
  The claim as stated asks for a message on standard output and a run that goes on. Here
  the second slug names no set: nothing is printed and the exception leaves \<open>handle\<close>.
\<close>

theorem missing_set_prints_nothing:
  "handle box_geos db1 [''wards'', ''parishes''] Csv False
     = (Some DoesNotExist, \<lparr>out = [], err = [], outputs = []\<rparr>)"
  by (simp add: handle_def get_by_def db1_def run0_def)


section \<open>The report of a set against itself\<close>





lemma sort_z: "sort [''z2'', ''z1''] = [''z1'', ''z2'']"
  by code_simp

lemma run_db2_json:
  "handle box_geos db2 [''zones'', ''zones''] Json m =
     (None, \<lparr>out = [Dump [json_record box_geos m ''zones'' ''zones'' ''z1'' z1 4 z2 4 2,
                           json_record box_geos m ''zones'' ''zones'' ''z1'' z1 4 z1 4 4,
                           json_record box_geos m ''zones'' ''zones'' ''z2'' z2 4 z2 4 4,
                           json_record box_geos m ''zones'' ''zones'' ''z2'' z2 4 z1 4 2]],
        err = [],
        outputs = [json_record box_geos m ''zones'' ''zones'' ''z1'' z1 4 z2 4 2,
                   json_record box_geos m ''zones'' ''zones'' ''z1'' z1 4 z1 4 4,
                   json_record box_geos m ''zones'' ''zones'' ''z2'' z2 4 z2 4 4,
                   json_record box_geos m ''zones'' ''zones'' ''z2'' z2 4 z1 4 2]\<rparr>)"
  by (simp add: handle_def get_by_def db2_def z1_def z2_def mk_boundary_def slugs_in_order_def sort_z run0_def
      process_pair_def box_geos_def box_inter_def box_area_def box_empty_def point_001_def Let_def)


section \<open>The two formats of the overlap report\<close>

text \<open>
  The loops do the same, pair by pair, in every format: they end in the same exception or
  in none, write the same messages, and keep the same pairs.
\<close>

lemma emit_Nil [simp]: "emit G fmt m sa sb [] [] st = st"
  by (simp add: emit_def)

lemma emit_emit:
  "emit G fmt m sa sb ps2 msgs2 (emit G fmt m sa sb ps1 msgs1 st) =
     emit G fmt m sa sb (ps1 @ ps2) (msgs1 @ msgs2) st"
  by (simp add: emit_def)

lemma process_pair_emit:
  assumes "a_slug = slug a"
  shows "\<exists>e ps msgs. \<forall>fmt m st.
           process_pair G fmt m sa sb a_slug a (g_area G (shape a)) b st = (e, emit G fmt m sa sb ps msgs st)"
proof (cases "g_intersection G (shape a) (shape b)")
  case (Inl x)
  have "\<forall>fmt m st. process_pair G fmt m sa sb a_slug a (g_area G (shape a)) b st =
      (None, emit G fmt m sa sb [] [a_slug @ ''/'' @ slug b @ '': '' @ x @ ''\<newline>''] st)"
    using Inl by (simp add: process_pair_def emit_def)
  then show ?thesis by blast
next
  case (Inr geometry)
  show ?thesis
  proof (cases "passes G a b geometry")
    case True
    have "\<forall>fmt m st. process_pair G fmt m sa sb a_slug a (g_area G (shape a)) b st =
      (None, emit G fmt m sa sb [(a, b, geometry)] [] st)"
    proof (intro allI)
      fix fmt m st
      show "process_pair G fmt m sa sb a_slug a (g_area G (shape a)) b st =
        (None, emit G fmt m sa sb [(a, b, geometry)] [] st)"
        using True Inr assms
        by (cases fmt) (simp_all add: process_pair_def passes_def Let_def csv_row_def json_of_def
            emit_def not_less [symmetric])
    qed
    then show ?thesis by blast
  next
    case False
    let ?e = "fst (process_pair G Csv False sa sb a_slug a (g_area G (shape a)) b run0)"
    have "\<forall>fmt m st. process_pair G fmt m sa sb a_slug a (g_area G (shape a)) b st =
      (?e, emit G fmt m sa sb [] [] st)"
      using False Inr by (auto simp: process_pair_def passes_def Let_def)
    then show ?thesis by blast
  qed
qed

lemma inner_loop_emit:
  assumes "a_slug = slug a"
  shows "\<exists>e ps msgs. \<forall>fmt m st.
           inner_loop G fmt m sa sb a_slug a (g_area G (shape a)) cs st = (e, emit G fmt m sa sb ps msgs st)"
proof (induction cs)
  case Nil
  have "\<forall>fmt m st. inner_loop G fmt m sa sb a_slug a (g_area G (shape a)) [] st =
      (None, emit G fmt m sa sb [] [] st)" by simp
  then show ?case by blast
next
  case (Cons b cs)
  from process_pair_emit [OF assms] obtain e1 ps1 msgs1 where
    1: "\<And>fmt m st. process_pair G fmt m sa sb a_slug a (g_area G (shape a)) b st
          = (e1, emit G fmt m sa sb ps1 msgs1 st)" by blast
  from Cons.IH obtain e2 ps2 msgs2 where
    2: "\<And>fmt m st. inner_loop G fmt m sa sb a_slug a (g_area G (shape a)) cs st
          = (e2, emit G fmt m sa sb ps2 msgs2 st)" by blast
  show ?case
  proof (cases e1)
    case None
    have "\<forall>fmt m st. inner_loop G fmt m sa sb a_slug a (g_area G (shape a)) (b # cs) st =
        (e2, emit G fmt m sa sb (ps1 @ ps2) (msgs1 @ msgs2) st)"
      using None by (simp add: 1 2 emit_emit)
    then show ?thesis by blast
  next
    case (Some x)
    have "\<forall>fmt m st. inner_loop G fmt m sa sb a_slug a (g_area G (shape a)) (b # cs) st =
        (e1, emit G fmt m sa sb ps1 msgs1 st)"
      using Some by (simp add: 1)
    then show ?thesis by blast
  qed
qed

lemma outer_loop_emit:
  "\<exists>e ps msgs. \<forall>fmt m st.
     outer_loop G fmt m A B slugs st = (e, emit G fmt m (set_slug A) (set_slug B) ps msgs st)"
proof (induction slugs)
  case Nil
  have "\<forall>fmt m st. outer_loop G fmt m A B [] st =
      (None, emit G fmt m (set_slug A) (set_slug B) [] [] st)" by simp
  then show ?case by blast
next
  case (Cons a_slug rest)
  show ?case
  proof (cases "get_by slug (boundaries A) a_slug")
    case (Inl x)
    have "\<forall>fmt m st. outer_loop G fmt m A B (a_slug # rest) st =
      (Some x, emit G fmt m (set_slug A) (set_slug B) [] [] st)"
      using Inl by simp
    then show ?thesis by blast
  next
    case (Inr a)
    from get_by_Inr [OF Inr] have "a_slug = slug a" by simp
    from inner_loop_emit [OF this] obtain e1 ps1 msgs1 where
      1: "\<And>fmt m st. inner_loop G fmt m (set_slug A) (set_slug B) a_slug a (g_area G (shape a))
             (filter (\<lambda>b. g_intersects G (shape b) (shape a)) (boundaries B)) st
           = (e1, emit G fmt m (set_slug A) (set_slug B) ps1 msgs1 st)" by blast
    from Cons.IH obtain e2 ps2 msgs2 where
      2: "\<And>fmt m st. outer_loop G fmt m A B rest st
           = (e2, emit G fmt m (set_slug A) (set_slug B) ps2 msgs2 st)" by blast
    show ?thesis
    proof (cases e1)
      case None
      have "\<forall>fmt m st. outer_loop G fmt m A B (a_slug # rest) st =
          (e2, emit G fmt m (set_slug A) (set_slug B) (ps1 @ ps2) (msgs1 @ msgs2) st)"
        using None Inr by (simp add: 1 2 emit_emit)
      then show ?thesis by blast
    next
      case (Some x)
      have "\<forall>fmt m st. outer_loop G fmt m A B (a_slug # rest) st =
          (e1, emit G fmt m (set_slug A) (set_slug B) ps1 msgs1 st)"
        using Some Inr by (simp add: 1)
      then show ?thesis by blast
    qed
  qed
qed

lemma slug_of_sides:
  "path [sb, ''slug''] (json_record G m sa sb a_slug a aa b ba ia) = Some (JStr (slug b))"
  "sa \<noteq> sb \<Longrightarrow> path [sa, ''slug''] (json_record G m sa sb a_slug a aa b ba ia) = Some (JStr a_slug)"
proof -
  obtain da where da: "side a a_slug aa (g_div G ia aa) = JDict da" "map_of da ''slug'' = Some (JStr a_slug)"
    using side_fields [of a a_slug aa "g_div G ia aa"] by blast
  obtain db where db: "side b (slug b) ba (g_div G ia ba) = JDict db" "map_of db ''slug'' = Some (JStr (slug b))"
    using side_fields [of b "slug b" ba "g_div G ia ba"] by blast
  show "path [sb, ''slug''] (json_record G m sa sb a_slug a aa b ba ia) = Some (JStr (slug b))"
    by (cases m) (auto simp: json_record_def Let_def field_def map_of_dict3 set_metadata_def da db update_conv')
  show "sa \<noteq> sb \<Longrightarrow> path [sa, ''slug''] (json_record G m sa sb a_slug a aa b ba ia) = Some (JStr a_slug)"
    by (cases m) (auto simp: json_record_def Let_def field_def map_of_dict3 set_metadata_def da db update_conv')
qed

lemma csv_pairs_rows:
  "csv_pairs (Header sa sb # map (\<lambda>(a, b, g). csv_row G a b g) ps) = map (\<lambda>(a, b, g). (slug a, slug b)) ps"
  by (induction ps) (auto simp: csv_pairs_def List.map_filter_simps csv_pair_def csv_row_def)

lemma json_pair_of:
  assumes "sa \<noteq> sb"
  shows "json_pair sa sb (json_of G m sa sb a b g) = Some (slug a, slug b)"
  unfolding json_pair_def json_of_def slug_of_sides(1) slug_of_sides(2) [OF assms] by simp

lemma json_pairs_records:
  assumes "sa \<noteq> sb"
  shows "json_pairs sa sb [Dump (map (\<lambda>(a, b, g). json_of G m sa sb a b g) ps)]
           = map (\<lambda>(a, b, g). (slug a, slug b)) ps"
  by (induction ps) (auto simp: json_pairs_def List.map_filter_simps json_pair_of [OF assms])

lemma handle_emit:
  assumes "get_by set_slug db (args ! 0) = Inr A" "get_by set_slug db (args ! 1) = Inr B"
    and "2 \<le> length args"
  shows "\<exists>e ps msgs.
     handle G db args Csv m = (e, \<lparr>out = Header (set_slug A) (set_slug B) # map (\<lambda>(a, b, g). csv_row G a b g) ps,
                                 err = msgs, outputs = []\<rparr>) \<and>
     handle G db args Json m' =
       (e, \<lparr>out = (if e = None then [Dump (map (\<lambda>(a, b, g). json_of G m' (set_slug A) (set_slug B) a b g) ps)] else []),
           err = msgs, outputs = map (\<lambda>(a, b, g). json_of G m' (set_slug A) (set_slug B) a b g) ps\<rparr>)"
proof -
  from outer_loop_emit [of G A B "slugs_in_order A"] obtain e ps msgs where
    o: "\<And>fmt m st. outer_loop G fmt m A B (slugs_in_order A) st
          = (e, emit G fmt m (set_slug A) (set_slug B) ps msgs st)" by blast
  from assms(3) have len: "\<not> length args < 2" by simp
  have c: "handle G db args Csv m = (e, \<lparr>out = Header (set_slug A) (set_slug B) # map (\<lambda>(a, b, g). csv_row G a b g) ps,
                                 err = msgs, outputs = []\<rparr>)"
    using assms(1,2) len by (cases e) (simp_all add: handle_def o emit_def run0_def)
  have j: "handle G db args Json m' =
       (e, \<lparr>out = (if e = None then [Dump (map (\<lambda>(a, b, g). json_of G m' (set_slug A) (set_slug B) a b g) ps)] else []),
           err = msgs, outputs = map (\<lambda>(a, b, g). json_of G m' (set_slug A) (set_slug B) a b g) ps\<rparr>)"
    using assms(1,2) len by (cases e) (simp_all add: handle_def o emit_def run0_def)
  from c j show ?thesis by blast
qed

text \<open>
  Claim C2, as the code has it. When the two set slugs differ and the CSV run ends
  without an uncaught exception, the JSON run ends without one too, writes the same
  messages to the error stream, and the pairs of slugs read from the records of its array
  are the pairs of slugs of the CSV rows, in the same order.
\<close>

theorem csv_and_json_same_pairs:
  assumes "fst (handle G db args Csv m) = None" and "args ! 0 \<noteq> args ! 1"
  shows "fst (handle G db args Json m') = None \<and>
         err (snd (handle G db args Json m')) = err (snd (handle G db args Csv m)) \<and>
         json_pairs (args ! 0) (args ! 1) (out (snd (handle G db args Json m')))
           = csv_pairs (out (snd (handle G db args Csv m)))"
proof (cases "length args < 2")
  case True
  then show ?thesis
    by (simp add: handle_def json_pairs_def csv_pairs_def List.map_filter_simps csv_pair_def)
next
  case False
  then have len: "2 \<le> length args" by simp
  obtain st where h: "handle G db args Csv m = (None, st)"
    using assms(1) by (cases "handle G db args Csv m") simp
  from handle_cases [OF h] False obtain A B where
    AB: "get_by set_slug db (args ! 0) = Inr A" "get_by set_slug db (args ! 1) = Inr B"
    by auto
  from get_by_Inr [OF AB(1)] get_by_Inr [OF AB(2)]
  have sl: "set_slug A = args ! 0" "set_slug B = args ! 1" by simp_all
  from handle_emit [OF AB len, of G m m'] obtain e ps msgs where
    c: "handle G db args Csv m = (e, \<lparr>out = Header (set_slug A) (set_slug B) # map (\<lambda>(a, b, g). csv_row G a b g) ps,
                                 err = msgs, outputs = []\<rparr>)" and
    j: "handle G db args Json m' =
       (e, \<lparr>out = (if e = None then [Dump (map (\<lambda>(a, b, g). json_of G m' (set_slug A) (set_slug B) a b g) ps)] else []),
           err = msgs, outputs = map (\<lambda>(a, b, g). json_of G m' (set_slug A) (set_slug B) a b g) ps\<rparr>)"
    by blast
  from c h have e: "e = None" by simp
  from assms(2) sl have ne: "set_slug A \<noteq> set_slug B" by simp
  show ?thesis
    unfolding c j e using json_pairs_records [OF ne, of G m' ps] csv_pairs_rows [of "set_slug A" "set_slug B" G ps]
    by (simp add: sl)
qed


lemma sort_w: "sort [''w1'', ''w2''] = [''w1'', ''w2'']"
  by code_simp

lemma run_db3_csv:
  "handle box_geos db3 [''wards'', ''districts''] Csv False =
     (Some ZeroDivisionError,
      \<lparr>out = [Header ''wards'' ''districts'', Row ''w1'' 1024 ''d1'' (524288 * point_001) (1024 * point_001) point_001 (1 / 512)],
        err = [], outputs = []\<rparr>)"
  by (simp add: handle_def get_by_def db3_def w1_def w2_def d1_def mk_boundary_def slugs_in_order_def sort_w run0_def
      process_pair_def box_geos_def box_inter_def box_area_def box_empty_def point_001_def Let_def)

lemma run_db3_json:
  "handle box_geos db3 [''wards'', ''districts''] Json False =
     (Some ZeroDivisionError,
      \<lparr>out = [], err = [], outputs = [json_record box_geos False ''wards'' ''districts'' ''w1'' w1 1024 d1 (524288 * point_001) (1024 * point_001)]\<rparr>)"
  by (simp add: handle_def get_by_def db3_def w1_def w2_def d1_def mk_boundary_def slugs_in_order_def sort_w run0_def
      process_pair_def box_geos_def box_inter_def box_area_def box_empty_def point_001_def Let_def)

text \<open>
  The claim as stated is for every two sets. Here the second ward has area zero: the CSV
  run has printed the row of the first ward when the division by zero ends it, while the
  JSON run, ended by the same exception, prints nothing.
\<close>

theorem csv_rows_before_crash_missing_in_json:
  "csv_pairs (out (snd (handle box_geos db3 [''wards'', ''districts''] Csv False))) = [(''w1'', ''d1'')] \<and>
   json_pairs ''wards'' ''districts'' (out (snd (handle box_geos db3 [''wards'', ''districts''] Json False))) = []"
  by (simp add: run_db3_csv run_db3_json csv_pairs_def json_pairs_def List.map_filter_simps csv_pair_def)


theorem csv_and_json_same_pairs_witness:
  "fst (handle box_geos db1 [''wards'', ''districts''] Csv False) = None \<and>
   [''wards'', ''districts''] ! 0 \<noteq> [''wards'', ''districts''] ! 1 \<and>
   fst (handle box_geos db1 [''wards'', ''districts''] Json True) = None \<and>
   csv_pairs (out (snd (handle box_geos db1 [''wards'', ''districts''] Csv False))) = [(''w1'', ''d1'')] \<and>
   json_pairs ''wards'' ''districts'' (out (snd (handle box_geos db1 [''wards'', ''districts''] Json True)))
     = [(''w1'', ''d1'')]"
proof -
  have 1: "fst (handle box_geos db1 [''wards'', ''districts''] Csv False) = None"
    by (simp add: run_db1_csv)
  have 2: "[''wards'', ''districts''] ! 0 \<noteq> [''wards'', ''districts''] ! 1" by simp
  have 3: "csv_pairs (out (snd (handle box_geos db1 [''wards'', ''districts''] Csv False))) = [(''w1'', ''d1'')]"
    by (simp add: run_db1_csv csv_pairs_def List.map_filter_simps csv_pair_def)
  from csv_and_json_same_pairs [OF 1 2, of True] 3 1 2 show ?thesis by simp
qed

text \<open>
  Why the slugs of the two sets must differ: in the report of a set against itself a JSON
  record keeps the second boundary alone, so the first slug of a pair of two different
  boundaries cannot be read from it.
\<close>

lemma run_db2_csv:
  "handle box_geos db2 [''zones'', ''zones''] Csv False =
     (None, \<lparr>out = [Header ''zones'' ''zones'',
                     Row ''z1'' 4 ''z2'' 4 2 (1 / 2) (1 / 2), Row ''z1'' 4 ''z1'' 4 4 1 1,
                     Row ''z2'' 4 ''z2'' 4 4 1 1, Row ''z2'' 4 ''z1'' 4 2 (1 / 2) (1 / 2)],
        err = [], outputs = []\<rparr>)"
  by (simp add: handle_def get_by_def db2_def z1_def z2_def mk_boundary_def slugs_in_order_def sort_z run0_def
      process_pair_def box_geos_def box_inter_def box_area_def box_empty_def point_001_def Let_def)

lemma slug_z: "slug z1 = ''z1''" "slug z2 = ''z2''"
  by (simp_all add: z1_def z2_def mk_boundary_def)

lemma same_set_pairs_differ:
  "csv_pairs (out (snd (handle box_geos db2 [''zones'', ''zones''] Csv False)))
     = [(''z1'', ''z2''), (''z1'', ''z1''), (''z2'', ''z2''), (''z2'', ''z1'')] \<and>
   json_pairs ''zones'' ''zones'' (out (snd (handle box_geos db2 [''zones'', ''zones''] Json False)))
     = [(''z2'', ''z2''), (''z1'', ''z1''), (''z2'', ''z2''), (''z1'', ''z1'')]"
  by (simp add: run_db2_csv run_db2_json csv_pairs_def json_pairs_def List.map_filter_simps csv_pair_def
      json_pair_def slug_of_sides(1) slug_z del: path.simps)

section \<open>Properties of the tile view\<close>

subsection \<open>Parameters and the empty tile\<close>

lemma ascii_int_examples:
  "ascii_int ''256'' = Some 256" "ascii_int ''3857'' = Some 3857" "ascii_int ''0'' = Some 0"
  "ascii_int ''3'' = Some 3" "ascii_int ''7'' = Some 7" "ascii_int ''60'' = Some 60"
  "ascii_int ''1024'' = Some 1024" "ascii_int ''999'' = Some 999" "ascii_int ''300'' = Some 300"
  "ascii_int ''abc'' = None" "ascii_int '' -12 '' = Some (- 12)" "ascii_int '''' = None"
  "ascii_int ''1.5'' = None"
  by (simp_all add: ascii_int_def strip_def is_space_def digit_def)

lemma box_engine_simps:
  "has_imaging_library box_engine" "py_int box_engine = ascii_int"
  "spatial_ref_sys box_engine 3857 = Some 3857" "spatial_ref_sys box_engine 4055 = Some 4055"
  "spatial_ref_sys box_engine 999 = None"
  "extent_of box_engine g = g" "transform box_engine from to g = g"
  "point_transform box_engine from to p = p" "polygon box_engine srs pts = box_of_points pts"
  "fadd box_engine x y = x + y" "fsub box_engine x y = x - y" "fmul box_engine x y = x * y"
  "fdiv box_engine x y = x / y" "float_of_int box_engine n = real_of_int n"
  "SIMPLE_SHAPE_TOLERANCE box_engine = 1 / 128"
  "shape_intersects box_engine r t = (\<not> box_empty (box_inter r t))"
  by (simp_all add: box_engine_def)

lemma pow2_examples:
  "pow2 3 = Inr 8" "pow2 7 = Inr 128" "pow2 60 = Inr (2 ^ 60)" "pow2 1024 = Inl OverflowError"
  by (simp_all add: pow2_def)

lemma float_times_int_small:
  "float_times_int E x 0 = Inr (fmul E x (float_of_int E 0))"
  "float_times_int E x 1 = Inr (fmul E x (float_of_int E 1))"
  by (simp_all add: float_times_int_def)

lemma tile_bbox_example:
  "tile_bbox box_engine 4055 3857 0 0 3 = Inr (- 180, 135, - 135, 180)"
  "tile_bbox box_engine 4055 3857 0 0 7 = Inr (- 180, 2835 / 16, - (2835 / 16), 180)"
  by (simp_all add: tile_bbox_def pow2_examples float_times_int_small box_engine_simps
      box_of_points_def Let_def)

text \<open>
  A request whose parameters are read, whose two spatial reference systems are found and
  whose box is computed goes on to line 194 with that box.
\<close>

lemma valid_request:
  assumes "has_imaging_library E"
    and "py_int E (get_param GET ''size'' ''256'') = Some sz" and "sz \<in> {256, 512, 1024}"
    and "py_int E (get_param GET ''srs'' ''3857'') = Some srs"
    and "spatial_ref_sys E srs = Some out_srs"
    and "spatial_ref_sys E (if srs = 3857 then 4055 else geometry_field_srid E) = Some db_srs"
    and "py_int E (get_param GET ''tile_x'' ''0'') = Some tile_x"
    and "py_int E (get_param GET ''tile_y'' ''0'') = Some tile_y"
    and "py_int E (get_param GET ''tile_zoom'' ''0'') = Some tile_zoom"
    and "tile_bbox E db_srs out_srs tile_x tile_y tile_zoom = Inr bbox"
  shows "boundaries_map_tiles E db GET s boundary_slug = tile E db s boundary_slug sz db_srs out_srs bbox"
  using assms by (simp add: boundaries_map_tiles_def)

lemma box_request:
  assumes "GET ''size'' = None" and "GET ''srs'' = None" and "GET ''tile_x'' = None"
    and "GET ''tile_y'' = None" and "GET ''tile_zoom'' = Some z" and "ascii_int z = Some tile_zoom"
  shows "has_imaging_library box_engine"
    and "py_int box_engine (get_param GET ''size'' ''256'') = Some 256"
    and "(256 :: int) \<in> {256, 512, 1024}"
    and "py_int box_engine (get_param GET ''srs'' ''3857'') = Some 3857"
    and "spatial_ref_sys box_engine 3857 = Some 3857"
    and "spatial_ref_sys box_engine (if (3857 :: int) = 3857 then 4055 else geometry_field_srid box_engine)
           = Some 4055"
    and "py_int box_engine (get_param GET ''tile_x'' ''0'') = Some 0"
    and "py_int box_engine (get_param GET ''tile_y'' ''0'') = Some 0"
    and "py_int box_engine (get_param GET ''tile_zoom'' ''0'') = Some tile_zoom"
  using assms by (simp_all add: get_param_def box_engine_simps ascii_int_examples)

text \<open>
  Claim C5, as the code has it. A request whose parameters are read, whose two spatial
  reference systems are found, whose box is computed without an exception and has a width
  and a height that are not zero, and for which no boundary of the set (and of the given
  slug, if one is given) intersects that box, is answered by a response of content type
  \<open>image/png\<close> whose body is the PNG of a surface of one by one pixel on which nothing
  was drawn.
\<close>

theorem empty_tile_is_transparent_pixel:
  assumes "has_imaging_library E"
    and "py_int E (get_param GET ''size'' ''256'') = Some sz" and "sz \<in> {256, 512, 1024}"
    and "py_int E (get_param GET ''srs'' ''3857'') = Some srs"
    and "spatial_ref_sys E srs = Some out_srs"
    and "spatial_ref_sys E (if srs = 3857 then 4055 else geometry_field_srid E) = Some db_srs"
    and "py_int E (get_param GET ''tile_x'' ''0'') = Some tile_x"
    and "py_int E (get_param GET ''tile_y'' ''0'') = Some tile_y"
    and "py_int E (get_param GET ''tile_zoom'' ''0'') = Some tile_zoom"
    and "tile_bbox E db_srs out_srs tile_x tile_y tile_zoom = Inr bbox"
    and "extent_of E bbox = (lon1, lat1, lon2, lat2)"
    and "fsub E lon2 lon1 \<noteq> 0" and "fsub E lat2 lat1 \<noteq> 0"
    and "matching E db s boundary_slug (transform E out_srs db_srs bbox) = []"
  shows "boundaries_map_tiles E db GET s boundary_slug
           = HttpResponse ''image/png'' \<lparr>width = 1, height = 1, ops = []\<rparr>"
proof -
  have "tile E db s boundary_slug sz db_srs out_srs bbox
          = HttpResponse ''image/png'' \<lparr>width = 1, height = 1, ops = []\<rparr>"
    using assms(11-14) by (simp add: tile_def tile_boundaries_def respond_def Let_def)
  then show ?thesis
    using valid_request [OF assms(1-10)] by simp
qed

theorem empty_tile_is_transparent_pixel_witness:
  "tile_bbox box_engine 4055 3857 0 0 3 = Inr (- 180, 135, - 135, 180) \<and>
   matching box_engine db1 ''wards'' None (transform box_engine 3857 4055 (- 180, 135, - 135, 180)) = [] \<and>
   boundaries_map_tiles box_engine db1 [''tile_zoom'' \<mapsto> ''3''] ''wards'' None
     = HttpResponse ''image/png'' \<lparr>width = 1, height = 1, ops = []\<rparr>"
proof -
  let ?GET = "[''tile_zoom'' \<mapsto> ''3'']"
  have m: "matching box_engine db1 ''wards'' None (transform box_engine 3857 4055 (- 180, 135, - 135, 180)) = []"
    by (simp add: matching_def db1_def w1_def d1_def mk_boundary_def box_engine_simps box_inter_def
        box_empty_def point_001_def)
  have "boundaries_map_tiles box_engine db1 ?GET ''wards'' None
     = HttpResponse ''image/png'' \<lparr>width = 1, height = 1, ops = []\<rparr>"
  proof (rule empty_tile_is_transparent_pixel [OF box_request [of ?GET "''3''" 3],
        where bbox = "(- 180, 135, - 135, 180)"
        and ?lon1.0 = "- 180" and ?lat1.0 = 135 and ?lon2.0 = "- 135" and ?lat2.0 = 180])
    show "tile_bbox box_engine 4055 3857 0 0 3 = Inr (- 180, 135, - 135, 180)"
      by (rule tile_bbox_example)
    show "extent_of box_engine (- 180, 135, - 135, 180) = (- 180, 135, - 135, 180)"
      by (simp add: box_engine_simps)
    show "fsub box_engine (- 135) (- 180) \<noteq> 0" by (simp add: box_engine_simps)
    show "fsub box_engine 180 135 \<noteq> 0" by (simp add: box_engine_simps)
    show "matching box_engine db1 ''wards'' None (transform box_engine 3857 4055 (- 180, 135, - 135, 180)) = []"
      by (rule m)
  qed (simp_all add: ascii_int_examples)
  with m tile_bbox_example(1) show ?thesis by blast
qed

text \<open>
  The claim as stated is for every request that no boundary meets. The set of these
  requests has no boundary at all. At zoom 60 the tile is narrower than the rounding of a
  float at the edge of the world: the sums of lines 187 and 188 give the same corner
  twice, the box has no width, and line 195 divides by zero. At zoom 1024
  \<open>math.pow\<close> raises OverflowError on line 185. Neither request is answered by an image.
\<close>

theorem empty_tile_at_deep_zoom_raises:
  "(\<forall>bbox. matching deep_engine db0 ''wards'' None bbox = []) \<and>
   tile_bbox deep_engine 4055 3857 0 0 60 = Inr (- 180, 180, - 180, 180) \<and>
   boundaries_map_tiles deep_engine db0 [''tile_zoom'' \<mapsto> ''60''] ''wards'' None
     = Raised ZeroDivisionError \<and>
   (\<forall>bbox. matching box_engine db0 ''wards'' None bbox = []) \<and>
   boundaries_map_tiles box_engine db0 [''tile_zoom'' \<mapsto> ''1024''] ''wards'' None
     = Raised OverflowError"
proof -
  have b: "tile_bbox deep_engine 4055 3857 0 0 60 = Inr (- 180, 180, - 180, 180)"
    by (simp add: tile_bbox_def pow2_examples float_times_int_small deep_engine_def box_engine_def
        box_of_points_def Let_def)
  have p: "has_imaging_library deep_engine" "py_int deep_engine = ascii_int"
    "spatial_ref_sys deep_engine 3857 = Some 3857" "spatial_ref_sys deep_engine 4055 = Some 4055"
    by (simp_all add: deep_engine_def box_engine_def)
  have t: "tile deep_engine db0 ''wards'' None 256 4055 3857 (- 180, 180, - 180, 180)
             = Raised ZeroDivisionError"
    by (simp add: tile_def deep_engine_def box_engine_def)
  have 1: "boundaries_map_tiles deep_engine db0 [''tile_zoom'' \<mapsto> ''60''] ''wards'' None
     = Raised ZeroDivisionError"
    by (simp add: boundaries_map_tiles_def get_param_def p ascii_int_examples b t)
  have 2: "boundaries_map_tiles box_engine db0 [''tile_zoom'' \<mapsto> ''1024''] ''wards'' None
     = Raised OverflowError"
    by (simp add: boundaries_map_tiles_def get_param_def box_engine_simps ascii_int_examples
        tile_bbox_def pow2_examples Let_def)
  have 3: "matching E db0 ''wards'' None bbox = []" for E :: "(box, int) engine" and bbox
    by (simp add: matching_def db0_def)
  from b 1 2 3 show ?thesis by simp
qed

text \<open>
  The parameters that the view answers with 404. The answer is 404 when \<open>size\<close> is not a
  number or not one of 256, 512 and 1024, and when \<open>srs\<close> is not a number. It is 404 as
  well when \<open>tile_x\<close>, \<open>tile_y\<close> or \<open>tile_zoom\<close> is not a number, provided the table of
  spatial reference systems holds the output system and the one of the database: the two
  are fetched between the two groups of parameters, outside of any \<open>try\<close>.
\<close>

lemma invalid_parameters_404:
  "(py_int E (get_param GET ''size'' ''256'') \<notin> {Some 256, Some 512, Some 1024} \<or>
    py_int E (get_param GET ''srs'' ''3857'') = None
      \<longrightarrow> (\<exists>msg. boundaries_map_tiles E db GET s boundary_slug = Http404 msg)) \<and>
   (py_int E (get_param GET ''srs'' ''3857'') = Some srs \<and>
    spatial_ref_sys E srs \<noteq> None \<and>
    spatial_ref_sys E (if srs = 3857 then 4055 else geometry_field_srid E) \<noteq> None \<and>
    (py_int E (get_param GET ''tile_x'' ''0'') = None \<or> py_int E (get_param GET ''tile_y'' ''0'') = None \<or>
     py_int E (get_param GET ''tile_zoom'' ''0'') = None)
      \<longrightarrow> (\<exists>msg. boundaries_map_tiles E db GET s boundary_slug = Http404 msg))"
  by (auto simp: boundaries_map_tiles_def split: option.splits)

lemma invalid_parameters_404_examples:
  "boundaries_map_tiles box_engine db1 [''size'' \<mapsto> ''300''] ''wards'' None = Http404 ''Invalid parameter.''"
  "boundaries_map_tiles box_engine db1 [''size'' \<mapsto> ''abc''] ''wards'' None = Http404 ''Invalid parameter.''"
  "boundaries_map_tiles box_engine db1 [''srs'' \<mapsto> ''abc''] ''wards'' None = Http404 ''Invalid parameter.''"
  "boundaries_map_tiles box_engine db1 [''tile_x'' \<mapsto> ''abc''] ''wards'' None = Http404 ''Invalid parameter.''"
  by (simp_all add: boundaries_map_tiles_def get_param_def box_engine_simps ascii_int_examples)

text \<open>
  Claim C6 does not hold of the code. The view turns the ValueError of a parameter that is
  no number into a 404 (lines 134 to 140 and 173 to 178), but it fetches the spatial
  reference system of \<open>srs\<close> on line 146, and the one of the database on lines 166 and
  168, outside of the two \<open>try\<close> blocks. A request with a valid \<open>size\<close> whose \<open>srs\<close> is
  a number that the table of spatial reference systems does not hold, or for which the
  table does not hold the system of the database, ends in the exception DoesNotExist, not
  in a 404; the parameters \<open>tile_x\<close>, \<open>tile_y\<close> and \<open>tile_zoom\<close> are not read then.
\<close>

theorem unknown_srs_raises:
  assumes "has_imaging_library E"
    and "py_int E (get_param GET ''size'' ''256'') = Some sz" and "sz \<in> {256, 512, 1024}"
    and "py_int E (get_param GET ''srs'' ''3857'') = Some srs"
    and "spatial_ref_sys E srs = None \<or>
         spatial_ref_sys E (if srs = 3857 then 4055 else geometry_field_srid E) = None"
  shows "boundaries_map_tiles E db GET s boundary_slug = Raised DoesNotExist"
proof (cases "spatial_ref_sys E srs")
  case None
  then show ?thesis using assms(1-4) by (simp add: boundaries_map_tiles_def)
next
  case (Some out_srs)
  with assms(5) have "spatial_ref_sys E (if srs = 3857 then 4055 else geometry_field_srid E) = None"
    by simp
  with Some show ?thesis using assms(1-4) by (simp add: boundaries_map_tiles_def)
qed

theorem unknown_srs_is_not_404:
  "py_int box_engine (get_param [''srs'' \<mapsto> ''999''] ''srs'' ''3857'') = Some 999 \<and>
   spatial_ref_sys box_engine 999 = None \<and>
   boundaries_map_tiles box_engine db1 [''srs'' \<mapsto> ''999''] ''wards'' None = Raised DoesNotExist \<and>
   py_int box_engine (get_param [''srs'' \<mapsto> ''999'', ''tile_x'' \<mapsto> ''abc''] ''tile_x'' ''0'') = None \<and>
   boundaries_map_tiles box_engine db1 [''srs'' \<mapsto> ''999'', ''tile_x'' \<mapsto> ''abc''] ''wards'' None
     = Raised DoesNotExist"
proof -
  have 1: "py_int box_engine (get_param [''srs'' \<mapsto> ''999''] ''srs'' ''3857'') = Some 999"
    and 2: "py_int box_engine (get_param [''srs'' \<mapsto> ''999'', ''tile_x'' \<mapsto> ''abc''] ''srs'' ''3857'') = Some 999"
    and 3: "py_int box_engine (get_param [''srs'' \<mapsto> ''999''] ''size'' ''256'') = Some 256"
    and 4: "py_int box_engine (get_param [''srs'' \<mapsto> ''999'', ''tile_x'' \<mapsto> ''abc''] ''size'' ''256'') = Some 256"
    and 5: "py_int box_engine (get_param [''srs'' \<mapsto> ''999'', ''tile_x'' \<mapsto> ''abc''] ''tile_x'' ''0'') = None"
    by (simp_all add: get_param_def box_engine_simps ascii_int_examples)
  have 6: "spatial_ref_sys box_engine 999 = None" by (simp add: box_engine_simps)
  have a: "boundaries_map_tiles box_engine db1 [''srs'' \<mapsto> ''999''] ''wards'' None = Raised DoesNotExist"
    by (rule unknown_srs_raises [OF box_engine_simps(1) 3 _ 1]) (simp_all add: 6)
  have b: "boundaries_map_tiles box_engine db1 [''srs'' \<mapsto> ''999'', ''tile_x'' \<mapsto> ''abc''] ''wards'' None
     = Raised DoesNotExist"
    by (rule unknown_srs_raises [OF box_engine_simps(1) 4 _ 2]) (simp_all add: 6)
  from 1 5 6 a b show ?thesis by blast
qed

subsection \<open>The geometry column and the shapes to draw\<close>

text \<open>
  Claim C7, as the code has it. For a request that reaches the query, the quantity the
  view calls \<open>pixel_width\<close> is the width of the box of the tile in the projection of the
  database, divided by the size of the tile and then by two: half the width of a pixel.
  The response is made from the rows of the boundaries that match, and these rows hold the
  column \<open>simple_shape\<close> if that quantity is above the tolerance of the settings, and the
  column \<open>shape\<close> otherwise.
\<close>

theorem simplified_field_above_tolerance:
  assumes "has_imaging_library E"
    and "py_int E (get_param GET ''size'' ''256'') = Some sz" and "sz \<in> {256, 512, 1024}"
    and "py_int E (get_param GET ''srs'' ''3857'') = Some srs"
    and "spatial_ref_sys E srs = Some out_srs"
    and "spatial_ref_sys E (if srs = 3857 then 4055 else geometry_field_srid E) = Some db_srs"
    and "py_int E (get_param GET ''tile_x'' ''0'') = Some tile_x"
    and "py_int E (get_param GET ''tile_y'' ''0'') = Some tile_y"
    and "py_int E (get_param GET ''tile_zoom'' ''0'') = Some tile_zoom"
    and "tile_bbox E db_srs out_srs tile_x tile_y tile_zoom = Inr bbox"
    and "extent_of E bbox = (lon1, lat1, lon2, lat2)"
    and "fsub E lon2 lon1 \<noteq> 0" and "fsub E lat2 lat1 \<noteq> 0"
    and "extent_of E (transform E out_srs db_srs bbox) = (x0, y0, x1, y1)"
    and "pixel_width = fdiv E (fdiv E (fsub E x1 x0) (real_of_int sz)) 2"
  shows "boundaries_map_tiles E db GET s boundary_slug =
           respond E
             \<lparr>size_px = sz, blon1 = lon1, blat1 = lat1,
              b_x = fdiv E (real_of_int sz) (fsub E lon2 lon1),
              b_y = fdiv E (real_of_int sz) (fsub E lat2 lat1)\<rparr>
             db_srs out_srs bbox pixel_width
             (map (values_row (if SIMPLE_SHAPE_TOLERANCE E < pixel_width then Simple_shape else Shape))
                (matching E db s boundary_slug (transform E out_srs db_srs bbox))) \<and>
         row_shape (values_row Simple_shape b) = simple_shape b \<and>
         row_shape (values_row Shape b) = shape b"
proof -
  have "tile E db s boundary_slug sz db_srs out_srs bbox =
           respond E
             \<lparr>size_px = sz, blon1 = lon1, blat1 = lat1,
              b_x = fdiv E (real_of_int sz) (fsub E lon2 lon1),
              b_y = fdiv E (real_of_int sz) (fsub E lat2 lat1)\<rparr>
             db_srs out_srs bbox pixel_width
             (map (values_row (if SIMPLE_SHAPE_TOLERANCE E < pixel_width then Simple_shape else Shape))
                (matching E db s boundary_slug (transform E out_srs db_srs bbox)))"
    using assms(11-15)
    by (simp add: tile_def Let_def pixel_width_of_def tile_boundaries_def choose_shape_field_def)
  then show ?thesis
    using valid_request [OF assms(1-10)] by (simp add: values_row_def)
qed

lemma matching_db4:
  "matching box_engine db4 ''wards'' None (- 180, 135, - 135, 180) = [n1]"
  "matching box_engine db4 ''wards'' None (- 180, 2835 / 16, - (2835 / 16), 180) = [n1]"
  by (simp_all add: matching_def db4_def n1_def mk_boundary_def box_engine_simps box_inter_def
      box_empty_def)

theorem simplified_field_above_tolerance_witness:
  "SIMPLE_SHAPE_TOLERANCE box_engine < 45 / 512 \<and>
   boundaries_map_tiles box_engine db4 [''tile_zoom'' \<mapsto> ''3''] ''wards'' None =
     respond box_engine
       \<lparr>size_px = 256, blon1 = - 180, blat1 = 135,
        b_x = fdiv box_engine 256 45, b_y = fdiv box_engine 256 45\<rparr>
       4055 3857 (- 180, 135, - 135, 180) (45 / 512) [values_row Simple_shape n1] \<and>
   row_shape (values_row Simple_shape n1) = simple_shape n1"
proof -
  let ?GET = "[''tile_zoom'' \<mapsto> ''3'']"
  have t: "SIMPLE_SHAPE_TOLERANCE box_engine < 45 / 512" by (simp add: box_engine_simps)
  have "boundaries_map_tiles box_engine db4 ?GET ''wards'' None =
           respond box_engine
             \<lparr>size_px = 256, blon1 = - 180, blat1 = 135,
              b_x = fdiv box_engine (real_of_int 256) (fsub box_engine (- 135) (- 180)),
              b_y = fdiv box_engine (real_of_int 256) (fsub box_engine 180 135)\<rparr>
             4055 3857 (- 180, 135, - 135, 180) (45 / 512)
             (map (values_row (if SIMPLE_SHAPE_TOLERANCE box_engine < 45 / 512 then Simple_shape else Shape))
                (matching box_engine db4 ''wards'' None (transform box_engine 3857 4055 (- 180, 135, - 135, 180)))) \<and>
         row_shape (values_row Simple_shape n1) = simple_shape n1 \<and>
         row_shape (values_row Shape n1) = shape n1"
  proof (rule simplified_field_above_tolerance [OF box_request [of ?GET "''3''" 3],
        where ?x0.0 = "- 180" and ?y0.0 = 135 and ?x1.0 = "- 135" and ?y1.0 = 180])
    show "tile_bbox box_engine 4055 3857 0 0 3 = Inr (- 180, 135, - 135, 180)"
      by (rule tile_bbox_example)
    show "extent_of box_engine (- 180, 135, - 135, 180) = (- 180, 135, - 135, 180)"
      by (simp add: box_engine_simps)
    show "fsub box_engine (- 135) (- 180) \<noteq> 0" by (simp add: box_engine_simps)
    show "fsub box_engine 180 135 \<noteq> 0" by (simp add: box_engine_simps)
    show "extent_of box_engine (transform box_engine 3857 4055 (- 180, 135, - 135, 180))
            = (- 180, 135, - 135, 180)"
      by (simp add: box_engine_simps)
    show "45 / 512 = fdiv box_engine (fdiv box_engine (fsub box_engine (- 135) (- 180)) (real_of_int 256)) 2"
      by (simp add: box_engine_simps)
  qed (simp_all add: ascii_int_examples)
  with t show ?thesis by (simp add: box_engine_simps matching_db4)
qed

text \<open>
  The claim as stated compares the width of a pixel with the tolerance. In this request
  the tile is 45 sixteenths of a degree wide and 256 pixels across: a pixel is wider than
  the tolerance of one 128th, half of it is not, and the rows hold the column \<open>shape\<close>.
\<close>

theorem full_shape_loaded_above_tolerance:
  "tile_bbox box_engine 4055 3857 0 0 7 = Inr (- 180, 2835 / 16, - (2835 / 16), 180) \<and>
   extent_of box_engine (transform box_engine 3857 4055 (- 180, 2835 / 16, - (2835 / 16), 180))
     = (- 180, 2835 / 16, - (2835 / 16), 180) \<and>
   SIMPLE_SHAPE_TOLERANCE box_engine < (- (2835 / 16) - (- 180)) / 256 \<and>
   boundaries_map_tiles box_engine db4 [''tile_zoom'' \<mapsto> ''7''] ''wards'' None =
     respond box_engine
       \<lparr>size_px = 256, blon1 = - 180, blat1 = 2835 / 16,
        b_x = fdiv box_engine 256 (45 / 16), b_y = fdiv box_engine 256 (45 / 16)\<rparr>
       4055 3857 (- 180, 2835 / 16, - (2835 / 16), 180) (45 / 8192) [values_row Shape n1] \<and>
   row_shape (values_row Shape n1) = shape n1 \<and>
   shape n1 \<noteq> simple_shape n1"
proof -
  have 1: "tile box_engine db4 ''wards'' None 256 4055 3857 (- 180, 2835 / 16, - (2835 / 16), 180) =
     respond box_engine
       \<lparr>size_px = 256, blon1 = - 180, blat1 = 2835 / 16,
        b_x = fdiv box_engine 256 (45 / 16), b_y = fdiv box_engine 256 (45 / 16)\<rparr>
       4055 3857 (- 180, 2835 / 16, - (2835 / 16), 180) (45 / 8192) [values_row Shape n1]"
    by (simp add: tile_def Let_def pixel_width_of_def tile_boundaries_def choose_shape_field_def
        box_engine_simps matching_db4)
  have 2: "boundaries_map_tiles box_engine db4 [''tile_zoom'' \<mapsto> ''7''] ''wards'' None =
     tile box_engine db4 ''wards'' None 256 4055 3857 (- 180, 2835 / 16, - (2835 / 16), 180)"
    by (simp add: boundaries_map_tiles_def get_param_def box_engine_simps ascii_int_examples
        tile_bbox_example)
  have 3: "row_shape (values_row Shape n1) = shape n1" "shape n1 \<noteq> simple_shape n1"
    by (simp_all add: values_row_def n1_def mk_boundary_def)
  from 1 2 3 tile_bbox_example(2) show ?thesis by (simp add: box_engine_simps)
qed










subsection \<open>Labels\<close>

lemma plate_corners:
  "corners None (plate pt (x_off, y_off, tw, th)) =
     [(fst pt - x_off - tw / 2 - 4, snd pt - th - 4),
      (fst pt - x_off - tw / 2 - 4 + (tw + 9), snd pt - th - 4),
      (fst pt - x_off - tw / 2 - 4 + (tw + 9), snd pt - th - 4 + (th + 8)),
      (fst pt - x_off - tw / 2 - 4 + (tw + 9) + (- tw - 9), snd pt - th - 4 + (th + 8))]"
  by (simp add: plate_def)

lemma shadow_corners:
  "corners None (shadow pt (x_off, y_off, tw, th)) =
     [(fst pt - x_off - tw / 2 - 4, snd pt - th - 4),
      (fst pt - x_off - tw / 2 - 4 + (tw + 11), snd pt - th - 4),
      (fst pt - x_off - tw / 2 - 4 + (tw + 11), snd pt - th - 4 + (th + 10)),
      (fst pt - x_off - tw / 2 - 4 + (tw + 11) + (- tw - 11), snd pt - th - 4 + (th + 10))]"
  by (simp add: shadow_def)

text \<open>
  What the test of lines 368 and 369 achieves, for text extents of a width and a height
  that are not negative. A label that fails the test is skipped: nothing is drawn for it.
  For a label that passes, the corners of the plate and of the drop shadow are inside the
  tile, and the text is set at a point computed from the extents; the box of its ink is
  inside the tile when the bearings are within the margins of the test (\<open>x_off\<close> from
  \<open>-4\<close> to \<open>7\<close>, the top of the ink at most \<open>th + 4\<close> above the base line and its
  bottom at most \<open>6\<close> below).
\<close>

lemma label_within_tile:
  assumes "0 \<le> tw" and "0 \<le> th" and "pixel_width \<noteq> 0"
  shows "(\<not> fits sz ext_dim pixel_width pt (x_off, y_off, tw, th) \<longrightarrow>
            draw_label sz ext_dim pixel_width pt (x_off, y_off, tw, th) txt = Inr []) \<and>
         (fits sz ext_dim pixel_width pt (x_off, y_off, tw, th) \<longrightarrow>
            draw_label sz ext_dim pixel_width pt (x_off, y_off, tw, th) txt =
              Inr (plate pt (x_off, y_off, tw, th) @ shadow pt (x_off, y_off, tw, th) @
                   label_text pt (x_off, y_off, tw, th) txt) \<and>
            list_all (inside sz) (corners None (plate pt (x_off, y_off, tw, th))) \<and>
            list_all (inside sz) (corners None (shadow pt (x_off, y_off, tw, th))) \<and>
            corners None (label_text pt (x_off, y_off, tw, th) txt) = [text_origin pt (x_off, y_off, tw, th)] \<and>
            (- 4 \<le> x_off \<and> x_off \<le> 7 \<and> - th - 4 \<le> y_off \<and> y_off \<le> 6 - th \<longrightarrow>
               box_inside sz (ink_box (text_origin pt (x_off, y_off, tw, th)) (x_off, y_off, tw, th))))"
proof (intro conjI impI)
  assume "\<not> fits sz ext_dim pixel_width pt (x_off, y_off, tw, th)"
  then show "draw_label sz ext_dim pixel_width pt (x_off, y_off, tw, th) txt = Inr []"
    using assms(3) by (simp add: draw_label_def)
next
  assume f: "fits sz ext_dim pixel_width pt (x_off, y_off, tw, th)"
  then show "draw_label sz ext_dim pixel_width pt (x_off, y_off, tw, th) txt =
              Inr (plate pt (x_off, y_off, tw, th) @ shadow pt (x_off, y_off, tw, th) @
                   label_text pt (x_off, y_off, tw, th) txt)"
    using assms(3) by (simp add: draw_label_def)
  from f have g: "fst pt - x_off - tw / 2 - 4 > 0" "snd pt - th - 4 > 0"
    "fst pt - x_off + tw / 2 + 7 < real_of_int sz" "snd pt + 6 < real_of_int sz"
    by (simp_all add: fits_def)
  show "list_all (inside sz) (corners None (plate pt (x_off, y_off, tw, th)))"
    unfolding plate_corners using g assms(1,2) by (simp add: inside_def)
  show "list_all (inside sz) (corners None (shadow pt (x_off, y_off, tw, th)))"
    unfolding shadow_corners using g assms(1,2) by (simp add: inside_def)
  show "corners None (label_text pt (x_off, y_off, tw, th) txt) = [text_origin pt (x_off, y_off, tw, th)]"
    by (simp add: label_text_def text_origin_def)
  assume "- 4 \<le> x_off \<and> x_off \<le> 7 \<and> - th - 4 \<le> y_off \<and> y_off \<le> 6 - th"
  then show "box_inside sz (ink_box (text_origin pt (x_off, y_off, tw, th)) (x_off, y_off, tw, th))"
    using g assms(1,2) by (simp add: box_inside_def ink_box_def text_origin_def)
qed

text \<open>
  Claim C9 does not hold of the code. The comment of line 367 has the test keep the label
  within the bounds of the tile, and the test does bound the plate and the shadow. But it
  places the text by its width, its height and \<open>x_off\<close> alone: \<open>y_off\<close>, the bearing
  from the base line to the top of the ink, is read on line 365 and never used. Here the
  ink of the text lies well above the base line, as that of a quotation mark does: the
  label passes the test, it is drawn, and the top of its ink is three pixels above the
  tile.
\<close>

theorem label_text_above_tile:
  "fits 256 300 1 (100, 10) (1, - 13, 3, 5) \<and>
   draw_label 256 300 1 (100, 10) (1, - 13, 3, 5) ''x'' =
     Inr (plate (100, 10) (1, - 13, 3, 5) @ shadow (100, 10) (1, - 13, 3, 5) @
          label_text (100, 10) (1, - 13, 3, 5) ''x'') \<and>
   ink_box (text_origin (100, 10) (1, - 13, 3, 5)) (1, - 13, 3, 5) = (197 / 2, - 3, 203 / 2, 2) \<and>
   \<not> box_inside 256 (ink_box (text_origin (100, 10) (1, - 13, 3, 5)) (1, - 13, 3, 5))"
  by (simp add: fits_def draw_label_def ink_box_def text_origin_def box_inside_def)


end
